theory Spec2Isabelle
  imports Complex_Main "HOL-Library.Monad_Syntax" "HOL-Library.Sublist"
begin

section \<open>Data model (packages/shared/src/index.ts)\<close>

text \<open>
  JavaScript numbers that hold grid coordinates, hit points and scores are integer valued
  throughout the engine; they are modelled as \<^typ>\<open>int\<close>. The few fractional constants
  (variant multipliers, spawn chances, the flee threshold) are modelled as exact rationals.
  Event ids and message strings are presentation only and are left out of the event type;
  every other field of an event payload is kept.
\<close>

type_synonym Coordinate = "int \<times> int"

datatype CharacterType = Dwarf | Elf | Bandit | Wizard

record CharacterStats =
  cs_hp :: int
  cs_maxHp :: int
  cs_attack :: int
  cs_defense :: int
  cs_rangedDamage :: int
  cs_rangedRange :: int

fun CHARACTER_STATS :: "CharacterType \<Rightarrow> CharacterStats" where
  "CHARACTER_STATS Dwarf = \<lparr>cs_hp = 28, cs_maxHp = 28, cs_attack = 6, cs_defense = 3,
      cs_rangedDamage = 3, cs_rangedRange = 2\<rparr>"
| "CHARACTER_STATS Bandit = \<lparr>cs_hp = 24, cs_maxHp = 24, cs_attack = 4, cs_defense = 4,
      cs_rangedDamage = 6, cs_rangedRange = 3\<rparr>"
| "CHARACTER_STATS Elf = \<lparr>cs_hp = 22, cs_maxHp = 22, cs_attack = 5, cs_defense = 3,
      cs_rangedDamage = 6, cs_rangedRange = 3\<rparr>"
| "CHARACTER_STATS Wizard = \<lparr>cs_hp = 20, cs_maxHp = 20, cs_attack = 4, cs_defense = 2,
      cs_rangedDamage = 7, cs_rangedRange = 4\<rparr>"

datatype FacingDirection = FaceLeft | FaceRight

datatype TileType = Floor | Wall | Stairs | Door

record Tile =
  t_type :: TileType
  t_x :: int
  t_y :: int

datatype ItemType = HealthPotion | EquipmentType

datatype EquipmentSlot = Weapon | Shield | Armor | Ranged

record Equipment =
  eq_id :: string
  eq_slot :: EquipmentSlot
  eq_name :: string
  attackBonus :: int
  defenseBonus :: int
  hpBonus :: int
  rangedDamageBonus :: int
  rangedRangeBonus :: int
  tier :: int

text \<open>An \<open>Item\<close>; the optional \<open>equipment\<close> field is the one \<open>EquipmentItem\<close> adds.\<close>

record Item =
  i_id :: string
  i_type :: ItemType
  i_name :: string
  i_x :: int
  i_y :: int
  i_value :: int
  i_equipment :: "Equipment option"

definition isEquipmentItem :: "Item \<Rightarrow> bool" where
  "isEquipmentItem item = (i_type item = EquipmentType \<and> i_equipment item \<noteq> None)"

definition mkEquipment ::
  "string \<Rightarrow> EquipmentSlot \<Rightarrow> string \<Rightarrow> int \<Rightarrow> int \<Rightarrow> int \<Rightarrow> int \<Rightarrow> int \<Rightarrow> int \<Rightarrow> Equipment" where
  "mkEquipment i s n a d h rd rr t =
     \<lparr>eq_id = i, eq_slot = s, eq_name = n, attackBonus = a, defenseBonus = d, hpBonus = h,
      rangedDamageBonus = rd, rangedRangeBonus = rr, tier = t\<rparr>"

definition EQUIPMENT_DEFINITIONS :: "Equipment list" where
  "EQUIPMENT_DEFINITIONS =
    [mkEquipment ''rusty_sword'' Weapon ''Rusty Sword'' 2 0 0 0 0 1,
     mkEquipment ''iron_sword'' Weapon ''Iron Sword'' 4 0 0 0 0 3,
     mkEquipment ''steel_sword'' Weapon ''Steel Sword'' 7 0 0 0 0 6,
     mkEquipment ''wooden_shield'' Shield ''Wooden Shield'' 0 2 0 0 0 1,
     mkEquipment ''iron_shield'' Shield ''Iron Shield'' 0 4 0 0 0 4,
     mkEquipment ''leather_armor'' Armor ''Leather Armor'' 0 1 10 0 0 1,
     mkEquipment ''chain_mail'' Armor ''Chain Mail'' 0 3 15 0 0 3,
     mkEquipment ''plate_armor'' Armor ''Plate Armor'' 0 5 25 0 0 6,
     mkEquipment ''throwing_daggers'' Ranged ''Throwing Daggers'' 0 0 0 2 0 1,
     mkEquipment ''magic_daggers'' Ranged ''Magic Daggers'' 0 0 0 4 1 4,
     mkEquipment ''crossbow'' Ranged ''Crossbow'' 0 0 0 2 0 1,
     mkEquipment ''large_crossbow'' Ranged ''Large Crossbow'' 0 0 0 4 1 4,
     mkEquipment ''crystal_staff'' Ranged ''Crystal Staff'' 0 0 0 2 0 1,
     mkEquipment ''flame_staff'' Ranged ''Flame Staff'' 0 0 0 5 1 5]"

definition getEquipmentForFloor :: "int \<Rightarrow> Equipment list" where
  "getEquipmentForFloor fl = filter (\<lambda>e. tier e \<le> fl + 1) EQUIPMENT_DEFINITIONS"

datatype EnemyType = Rat | Skeleton | Orc | Dragon

datatype EnemyVariant = Normal | Elite | Champion

datatype AIBehavior = Aggressive | Patrol | Flee | Stationary

record VariantMultipliers =
  hpMult :: rat
  attackMult :: rat
  defenseMult :: rat
  xpMult :: rat
  namePrefix :: string

fun VARIANT_MULTIPLIERS :: "EnemyVariant \<Rightarrow> VariantMultipliers" where
  "VARIANT_MULTIPLIERS Normal =
     \<lparr>hpMult = 1, attackMult = 1, defenseMult = 1, xpMult = 1, namePrefix = ''''\<rparr>"
| "VARIANT_MULTIPLIERS Elite =
     \<lparr>hpMult = 3 / 2, attackMult = 3 / 2, defenseMult = 6 / 5, xpMult = 5 / 2,
      namePrefix = ''Elite ''\<rparr>"
| "VARIANT_MULTIPLIERS Champion =
     \<lparr>hpMult = 5 / 2, attackMult = 9 / 5, defenseMult = 3 / 2, xpMult = 4,
      namePrefix = ''Champion ''\<rparr>"

record Enemy =
  e_id :: string
  e_type :: EnemyType
  e_variant :: EnemyVariant
  e_displayName :: string
  e_x :: int
  e_y :: int
  e_hp :: int
  e_maxHp :: int
  e_attack :: int
  e_defense :: int
  e_behavior :: AIBehavior
  e_lastSeenPlayer :: "Coordinate option"

record PlayerEquipment =
  weapon :: "Equipment option"
  shield :: "Equipment option"
  armor :: "Equipment option"
  ranged :: "Equipment option"

record Player =
  p_x :: int
  p_y :: int
  p_hp :: int
  p_maxHp :: int
  p_attack :: int
  p_defense :: int
  p_inventory :: "Item list"
  p_xp :: int
  p_level :: int
  p_xpToNextLevel :: int
  p_equipment :: PlayerEquipment
  p_character :: CharacterType
  p_facingDirection :: FacingDirection

datatype GameStatus = Active | Dead | Won

text \<open>\<open>createdAt\<close> and \<open>updatedAt\<close> are clock readings, modelled as natural numbers.\<close>

record GameState =
  gs_id :: string
  playerId :: string
  playerName :: string
  gs_floor :: int
  player :: Player
  gs_map :: "Tile list list"
  enemies :: "Enemy list"
  items :: "Item list"
  fog :: "bool list list"
  status :: GameStatus
  score :: int
  createdAt :: nat
  updatedAt :: nat

datatype Direction = Up | Down | DirLeft | DirRight

datatype AttackType = Bolt | Dagger | MagicDagger | Spell

datatype GameEvent =
    PlayerMoved
  | PlayerAttacked int int int string
  | PlayerDamaged
  | PlayerHealed string int
  | PotionRefused
  | RangedAttack int int int "string option" AttackType
  | RangedMissed int int int "string option" AttackType
  | EnemyKilled string EnemyType
  | ItemPickedUp string string
  | FloorDescended
  | PlayerDied EnemyType
  | GameWon
  | XpGained int int
  | LevelUp int int int int
  | EquipmentEquipped string Equipment EquipmentSlot
  | EquipmentFound Equipment bool

definition MAP_WIDTH :: int where "MAP_WIDTH = 40"
definition MAP_HEIGHT :: int where "MAP_HEIGHT = 24"
definition VISION_RADIUS :: int where "VISION_RADIUS = 5"

record BaseEnemyStats =
  bs_hp :: int
  bs_attack :: int
  bs_defense :: int
  xpReward :: int

fun ENEMY_STATS :: "EnemyType \<Rightarrow> BaseEnemyStats" where
  "ENEMY_STATS Rat = \<lparr>bs_hp = 6, bs_attack = 4, bs_defense = 0, xpReward = 8\<rparr>"
| "ENEMY_STATS Skeleton = \<lparr>bs_hp = 15, bs_attack = 8, bs_defense = 2, xpReward = 30\<rparr>"
| "ENEMY_STATS Orc = \<lparr>bs_hp = 25, bs_attack = 13, bs_defense = 4, xpReward = 60\<rparr>"
| "ENEMY_STATS Dragon = \<lparr>bs_hp = 45, bs_attack = 20, bs_defense = 8, xpReward = 200\<rparr>"

definition getEnemyXpReward :: "Enemy \<Rightarrow> int" where
  "getEnemyXpReward enemy =
     \<lfloor>of_int (xpReward (ENEMY_STATS (e_type enemy))) * xpMult (VARIANT_MULTIPLIERS (e_variant enemy))\<rfloor>"

definition getXpToNextLevel :: "int \<Rightarrow> int" where
  "getXpToNextLevel level = level * 50"

section \<open>Combat and progression (apps/api/src/services/gameLogic.ts)\<close>

subsection \<open>grantXp\<close>

text \<open>
  The \<open>while\<close> loop of \<open>grantXp\<close>. It returns the events pushed by the loop and the
  player it leaves. The loop has no iteration cap in the source, so its termination is
  proved here for every integer input: the level grows by one per iteration, and once the
  level is positive the threshold \<open>level * 50\<close> is positive and \<open>xp\<close> strictly falls.
\<close>

function levelUpLoop :: "Player \<Rightarrow> GameEvent list \<times> Player" where
  "levelUpLoop p =
     (if p_xp p \<ge> p_xpToNextLevel p then
        let p1 = p\<lparr>p_xp := p_xp p - p_xpToNextLevel p\<rparr>;
            p2 = p1\<lparr>p_level := p_level p1 + 1\<rparr>;
            hpGained = 3;
            attackGained = 1;
            defenseGained = 1;
            p3 = p2\<lparr>p_maxHp := p_maxHp p2 + hpGained\<rparr>;
            healAmount = p_maxHp p3 div 2;
            p4 = p3\<lparr>p_hp := min (p_maxHp p3) (p_hp p3 + healAmount)\<rparr>;
            p5 = p4\<lparr>p_attack := p_attack p4 + attackGained\<rparr>;
            p6 = p5\<lparr>p_defense := p_defense p5 + defenseGained\<rparr>;
            p7 = p6\<lparr>p_xpToNextLevel := getXpToNextLevel (p_level p6)\<rparr>;
            (evs, p') = levelUpLoop p7
        in (LevelUp (p_level p7) hpGained attackGained defenseGained # evs, p')
      else ([], p))"
  by pat_completeness auto
termination
proof (relation "measures [\<lambda>p. nat (1 - p_level p),
                           \<lambda>p. if p_xpToNextLevel p \<le> 0 then 1 else 0,
                           \<lambda>p. nat (p_xp p)]", goal_cases)
  case 1
  show ?case by simp
next
  case (2 p p1 p2 hpGained attackGained defenseGained p3 healAmount p4 p5 p6 p7)
  then show ?case
    by (auto simp: getXpToNextLevel_def)
qed

definition grantXp :: "GameState \<Rightarrow> Enemy \<Rightarrow> GameEvent list \<times> GameState" where
  "grantXp state enemy =
     (let xpReward = getEnemyXpReward enemy;
          p1 = (player state)\<lparr>p_xp := p_xp (player state) + xpReward\<rparr>;
          (evs, p') = levelUpLoop p1
      in (XpGained xpReward (p_xp p1) # evs, state\<lparr>player := p'\<rparr>))"

definition getEnemyScore :: "EnemyType \<Rightarrow> int" where
  "getEnemyScore ty = (case ty of Rat \<Rightarrow> 10 | Skeleton \<Rightarrow> 25 | Orc \<Rightarrow> 50 | Dragon \<Rightarrow> 200)"

subsection \<open>Equipment pickup\<close>

definition getEquipmentTotalBonus :: "Equipment \<Rightarrow> int" where
  "getEquipmentTotalBonus equipment =
     attackBonus equipment + defenseBonus equipment + hpBonus equipment
     + rangedDamageBonus equipment + rangedRangeBonus equipment"

fun getSlot :: "PlayerEquipment \<Rightarrow> EquipmentSlot \<Rightarrow> Equipment option" where
  "getSlot pe Weapon = weapon pe"
| "getSlot pe Shield = shield pe"
| "getSlot pe Armor = armor pe"
| "getSlot pe Ranged = ranged pe"

fun setSlot :: "PlayerEquipment \<Rightarrow> EquipmentSlot \<Rightarrow> Equipment \<Rightarrow> PlayerEquipment" where
  "setSlot pe Weapon e = pe\<lparr>weapon := Some e\<rparr>"
| "setSlot pe Shield e = pe\<lparr>shield := Some e\<rparr>"
| "setSlot pe Armor e = pe\<lparr>armor := Some e\<rparr>"
| "setSlot pe Ranged e = pe\<lparr>ranged := Some e\<rparr>"

text \<open>\<open>items.splice(itemIndex, 1)\<close>.\<close>

definition splice1 :: "'a list \<Rightarrow> nat \<Rightarrow> 'a list" where
  "splice1 xs i = take i xs @ drop (Suc i) xs"

text \<open>
  \<open>handleEquipmentPickup(state, item, itemIndex)\<close>; the item's id and its equipment are
  passed as the source's structural parameter has them.
\<close>

definition handleEquipmentPickup ::
  "GameState \<Rightarrow> string \<Rightarrow> Equipment \<Rightarrow> nat \<Rightarrow> GameEvent list \<times> GameState" where
  "handleEquipmentPickup state itemId equipment itemIndex =
     (let slot = eq_slot equipment;
          currentEquipment = getSlot (p_equipment (player state)) slot;
          currentBonus = (case currentEquipment of Some c \<Rightarrow> getEquipmentTotalBonus c | None \<Rightarrow> 0);
          newBonus = getEquipmentTotalBonus equipment;
          isBetter = (newBonus > currentBonus)
      in if isBetter \<or> currentEquipment = None then
           let s1 = state\<lparr>items := splice1 (items state) itemIndex\<rparr>;
               p = player s1;
               p1 = (case currentEquipment of
                       Some c \<Rightarrow> p\<lparr>p_attack := p_attack p - attackBonus c,
                                   p_defense := p_defense p - defenseBonus c,
                                   p_maxHp := p_maxHp p - hpBonus c\<rparr>
                     | None \<Rightarrow> p);
               p2 = p1\<lparr>p_equipment := setSlot (p_equipment p1) slot equipment\<rparr>;
               p3 = p2\<lparr>p_attack := p_attack p2 + attackBonus equipment,
                       p_defense := p_defense p2 + defenseBonus equipment,
                       p_maxHp := p_maxHp p2 + hpBonus equipment\<rparr>;
               p4 = (if p_hp p3 > p_maxHp p3 then p3\<lparr>p_hp := p_maxHp p3\<rparr> else p3)
           in ([EquipmentEquipped itemId equipment slot], s1\<lparr>player := p4\<rparr>)
         else ([EquipmentFound equipment True], state))"

section \<open>Grid access\<close>

text \<open>
  \<open>state.map[y][x]\<close>: \<open>None\<close> stands for JavaScript's \<open>undefined\<close> (a row or a cell that
  does not exist). Reading \<open>.type\<close> of it throws a \<open>TypeError\<close>; the functions below that
  can throw return \<open>None\<close> in that case. The optional chain \<open>map[y]?.[x]?.type\<close> does
  not throw.
\<close>

definition tileAt :: "Tile list list \<Rightarrow> int \<Rightarrow> int \<Rightarrow> Tile option" where
  "tileAt m x y =
     (if 0 \<le> y \<and> y < int (length m) then
        (let row = m ! nat y in
         if 0 \<le> x \<and> x < int (length row) then Some (row ! nat x) else None)
      else None)"

text \<open>\<open>state.map[0].length\<close>; it throws on an empty map.\<close>

definition mapWidth :: "Tile list list \<Rightarrow> int option" where
  "mapWidth m = (case m of [] \<Rightarrow> None | row # _ \<Rightarrow> Some (int (length row)))"

text \<open>\<open>Array.prototype.findIndex\<close>, with \<open>None\<close> for \<open>-1\<close>; \<open>find\<close> returns the element there.\<close>

fun findIndex :: "('a \<Rightarrow> bool) \<Rightarrow> 'a list \<Rightarrow> nat option" where
  "findIndex P [] = None"
| "findIndex P (x # xs) =
     (if P x then Some 0 else (case findIndex P xs of None \<Rightarrow> None | Some i \<Rightarrow> Some (Suc i)))"

section \<open>Fog of war\<close>

text \<open>
  \<open>state.fog[y][x] = true\<close> for \<open>x, y \<ge> 0\<close>. A missing row throws. A write past the end of
  a row grows the row; the cells in between are holes, which read as not revealed.
\<close>

definition fogWrite :: "bool list list \<Rightarrow> int \<Rightarrow> int \<Rightarrow> bool list list option" where
  "fogWrite fg x y =
     (if nat y < length fg then
        (let row = fg ! nat y;
             row' = (if nat x < length row then row[nat x := True]
                     else row @ replicate (nat x - length row) False @ [True])
         in Some (fg[nat y := row']))
      else None)"

text \<open>\<open>state.fog[y]?.[x] === true\<close>.\<close>

definition fogAt :: "bool list list \<Rightarrow> int \<Rightarrow> int \<Rightarrow> bool" where
  "fogAt fg x y =
     (0 \<le> y \<and> y < int (length fg) \<and> 0 \<le> x \<and> x < int (length (fg ! nat y))
      \<and> fg ! nat y ! nat x)"

text \<open>
  The two nested loops of \<open>updateFog\<close> visit the offsets in this order. The source compares
  \<open>Math.sqrt(dx * dx + dy * dy)\<close> with the radius; for integer offsets that is the
  comparison of the squares.
\<close>

definition fogOffsets :: "(int \<times> int) list" where
  "fogOffsets =
     concat (map (\<lambda>dy. map (\<lambda>dx. (dx, dy)) [- VISION_RADIUS..VISION_RADIUS])
                 [- VISION_RADIUS..VISION_RADIUS])"

fun updateFogLoop :: "GameState \<Rightarrow> int \<Rightarrow> int \<Rightarrow> (int \<times> int) list \<Rightarrow> GameState option" where
  "updateFogLoop state px py [] = Some state"
| "updateFogLoop state px py ((dx, dy) # rest) =
     (let x = px + dx; y = py + dy in
      if x \<ge> 0 then
        (case mapWidth (gs_map state) of
           None \<Rightarrow> None
         | Some w \<Rightarrow>
             if x < w \<and> y \<ge> 0 \<and> y < int (length (gs_map state)) then
               (if dx * dx + dy * dy \<le> VISION_RADIUS * VISION_RADIUS then
                  (case fogWrite (fog state) x y of
                     None \<Rightarrow> None
                   | Some fg \<Rightarrow> updateFogLoop (state\<lparr>fog := fg\<rparr>) px py rest)
                else updateFogLoop state px py rest)
             else updateFogLoop state px py rest)
      else updateFogLoop state px py rest)"

definition updateFog :: "GameState \<Rightarrow> GameState option" where
  "updateFog state = updateFogLoop state (p_x (player state)) (p_y (player state)) fogOffsets"

section \<open>Melee\<close>

text \<open>
  Enemies are objects mutated in place; the model names an enemy by its index in
  \<open>state.enemies\<close>.
\<close>

definition attackEnemy :: "GameState \<Rightarrow> nat \<Rightarrow> GameEvent list \<times> GameState" where
  "attackEnemy state idx =
     (let enemy = enemies state ! idx;
          damage = max 1 (p_attack (player state) - e_defense enemy);
          enemy' = enemy\<lparr>e_hp := e_hp enemy - damage\<rparr>;
          s1 = state\<lparr>enemies := (enemies state)[idx := enemy']\<rparr>;
          attacked = PlayerAttacked (e_x enemy') (e_y enemy') damage (e_id enemy')
      in if e_hp enemy' \<le> 0 then
           let s2 = s1\<lparr>score := score s1 + getEnemyScore (e_type enemy')\<rparr>;
               (xpEvents, s3) = grantXp s2 enemy'
           in ([attacked, EnemyKilled (e_id enemy') (e_type enemy')] @ xpEvents, s3)
         else ([attacked], s1))"

section \<open>Line of sight\<close>

definition isWallAt :: "Tile list list \<Rightarrow> int \<Rightarrow> int \<Rightarrow> bool" where
  "isWallAt m x y = (case tileAt m x y of Some t \<Rightarrow> t_type t = Wall | None \<Rightarrow> False)"

text \<open>The \<open>for\<close> loop of \<open>hasLineOfSight\<close>, with its cap of \<open>MAP_WIDTH + MAP_HEIGHT\<close> rounds.\<close>

function losLoop ::
  "Tile list list \<Rightarrow> int \<times> int \<Rightarrow> int \<times> int \<Rightarrow> int \<times> int \<Rightarrow> int \<times> int
     \<Rightarrow> int \<Rightarrow> int \<Rightarrow> int \<Rightarrow> int \<Rightarrow> bool" where
  "losLoop m (x1, y1) (x2, y2) (dx, dy) (sx, sy) err x y i =
     (if i < MAP_WIDTH + MAP_HEIGHT then
        if (x \<noteq> x1 \<or> y \<noteq> y1) \<and> x = x2 \<and> y = y2 then True
        else if (x \<noteq> x1 \<or> y \<noteq> y1) \<and> isWallAt m x y then False
        else if x = x2 \<and> y = y2 then True
        else
          let e2 = 2 * err;
              err1 = (if e2 > - dy then err - dy else err);
              xn = (if e2 > - dy then x + sx else x);
              err2 = (if e2 < dx then err1 + dx else err1);
              yn = (if e2 < dx then y + sy else y)
          in if xn = x \<and> yn = y then False
             else losLoop m (x1, y1) (x2, y2) (dx, dy) (sx, sy) err2 xn yn (i + 1)
      else False)"
  by pat_completeness auto
termination
  by (relation "measure (\<lambda>(m, a, b, d, s, err, x, y, i). nat (MAP_WIDTH + MAP_HEIGHT - i))") auto

definition hasLineOfSight :: "GameState \<Rightarrow> int \<Rightarrow> int \<Rightarrow> int \<Rightarrow> int \<Rightarrow> bool" where
  "hasLineOfSight state x1 y1 x2 y2 =
     (if x1 = x2 \<and> y1 = y2 then True
      else
        let dx = \<bar>x2 - x1\<bar>;
            dy = \<bar>y2 - y1\<bar>;
            sx = (if x1 < x2 then 1 else - 1);
            sy = (if y1 < y2 then 1 else - 1)
        in losLoop (gs_map state) (x1, y1) (x2, y2) (dx, dy) (sx, sy) (dx - dy) x1 y1 0)"

section \<open>Pathfinding\<close>

record PathNode =
  pn_x :: int
  pn_y :: int
  pn_path :: "Coordinate list"

definition bfsDirections :: "(int \<times> int) list" where
  "bfsDirections = [(0, - 1), (0, 1), (- 1, 0), (1, 0)]"

definition liveEnemyAt :: "GameState \<Rightarrow> int \<Rightarrow> int \<Rightarrow> bool" where
  "liveEnemyAt state x y = list_ex (\<lambda>e. e_x e = x \<and> e_y e = y \<and> e_hp e > 0) (enemies state)"

text \<open>
  The inner \<open>for (const dir of directions)\<close> loop of \<open>findPathToTarget\<close>. \<open>Inl step\<close> is the
  \<open>return\<close> from inside the loop; \<open>Inr\<close> carries the visited set and the queue on. The visited
  set of keys \<open>"x,y"\<close> is a list of coordinates.
\<close>

fun bfsNeighbors ::
  "GameState \<Rightarrow> int \<Rightarrow> int \<Rightarrow> PathNode \<Rightarrow> (int \<times> int) list \<Rightarrow> Coordinate list \<Rightarrow> PathNode list
     \<Rightarrow> (Coordinate option + Coordinate list \<times> PathNode list) option" where
  "bfsNeighbors state targetX targetY current [] visited queue = Some (Inr (visited, queue))"
| "bfsNeighbors state targetX targetY current ((ddx, ddy) # dirs) visited queue =
     (let nx = pn_x current + ddx; ny = pn_y current + ddy in
      if (nx, ny) \<in> set visited then
        bfsNeighbors state targetX targetY current dirs visited queue
      else
        let visited' = visited @ [(nx, ny)] in
        if nx < 0 then bfsNeighbors state targetX targetY current dirs visited' queue
        else
          (case mapWidth (gs_map state) of
             None \<Rightarrow> None
           | Some w \<Rightarrow>
               if nx \<ge> w \<or> ny < 0 \<or> ny \<ge> int (length (gs_map state)) then
                 bfsNeighbors state targetX targetY current dirs visited' queue
               else
                 (case tileAt (gs_map state) nx ny of
                    None \<Rightarrow> None
                  | Some t \<Rightarrow>
                      if t_type t = Wall then
                        bfsNeighbors state targetX targetY current dirs visited' queue
                      else
                        let hasEnemy = liveEnemyAt state nx ny;
                            isPlayer = (nx = p_x (player state) \<and> ny = p_y (player state));
                            newPath = pn_path current @ [(nx, ny)]
                        in if nx = targetX \<and> ny = targetY then
                             Some (Inl (case newPath of [] \<Rightarrow> None | c # _ \<Rightarrow> Some c))
                           else if \<not> hasEnemy \<and> \<not> isPlayer then
                             bfsNeighbors state targetX targetY current dirs visited'
                               (queue @ [\<lparr>pn_x = nx, pn_y = ny, pn_path = newPath\<rparr>])
                           else bfsNeighbors state targetX targetY current dirs visited' queue)))"

definition MAX_ITERATIONS :: nat where
  "MAX_ITERATIONS = nat (MAP_WIDTH * MAP_HEIGHT)"

text \<open>\<open>queue.shift()\<close>.\<close>

definition shift :: "'a list \<Rightarrow> 'a option \<times> 'a list" where
  "shift q = (case q of [] \<Rightarrow> (None, []) | x # xs \<Rightarrow> (Some x, xs))"

text \<open>
  The \<open>while (current)\<close> loop. The outer \<open>option\<close> is the \<open>TypeError\<close>; the inner one is the
  returned step or \<open>null\<close>. The iteration counter bounds the loop, as in the source.
\<close>

function bfsLoop ::
  "GameState \<Rightarrow> int \<Rightarrow> int \<Rightarrow> int \<Rightarrow> Coordinate list \<Rightarrow> PathNode list \<Rightarrow> PathNode option \<Rightarrow> nat
     \<Rightarrow> Coordinate option option" where
  "bfsLoop state targetX targetY maxDistance visited queue current iterations =
     (case current of
        None \<Rightarrow> Some None
      | Some cur \<Rightarrow>
          if Suc iterations > MAX_ITERATIONS then Some None
          else if int (length (pn_path cur)) \<ge> maxDistance then
            bfsLoop state targetX targetY maxDistance visited (snd (shift queue))
              (fst (shift queue)) (Suc iterations)
          else
            (case bfsNeighbors state targetX targetY cur bfsDirections visited queue of
               None \<Rightarrow> None
             | Some (Inl found) \<Rightarrow> Some found
             | Some (Inr (visited', queue')) \<Rightarrow>
                 bfsLoop state targetX targetY maxDistance visited' (snd (shift queue'))
                   (fst (shift queue')) (Suc iterations)))"
  by pat_completeness auto
termination
  by (relation "measure (\<lambda>(s, tx, ty, md, v, q, c, it). Suc MAX_ITERATIONS - it)") auto

definition findPathToTarget ::
  "GameState \<Rightarrow> int \<Rightarrow> int \<Rightarrow> int \<Rightarrow> int \<Rightarrow> int \<Rightarrow> Coordinate option option" where
  "findPathToTarget state startX startY targetX targetY maxDistance =
     (if startX = targetX \<and> startY = targetY then Some None
      else
        let queue = [\<lparr>pn_x = startX, pn_y = startY, pn_path = []\<rparr>];
            visited = [(startX, startY)]
        in bfsLoop state targetX targetY maxDistance visited (snd (shift queue))
             (fst (shift queue)) 0)"

section \<open>Enemy AI\<close>

text \<open>
  \<open>canMoveToTile(state, enemy, x, y)\<close>. The test \<open>e !== enemy\<close> compares object identity;
  in the model that is inequality of the indices in \<open>state.enemies\<close>.
\<close>

definition otherLiveEnemyAt :: "GameState \<Rightarrow> nat \<Rightarrow> int \<Rightarrow> int \<Rightarrow> bool" where
  "otherLiveEnemyAt state idx x y =
     list_ex (\<lambda>(j, e). j \<noteq> idx \<and> e_x e = x \<and> e_y e = y \<and> e_hp e > 0)
       (enumerate 0 (enemies state))"

definition canMoveToTile :: "GameState \<Rightarrow> nat \<Rightarrow> int \<Rightarrow> int \<Rightarrow> bool option" where
  "canMoveToTile state idx x y =
     (if x < 0 then Some False
      else
        (case mapWidth (gs_map state) of
           None \<Rightarrow> None
         | Some w \<Rightarrow>
             if x \<ge> w \<or> y < 0 \<or> y \<ge> int (length (gs_map state)) then Some False
             else
               (case tileAt (gs_map state) x y of
                  None \<Rightarrow> None
                | Some t \<Rightarrow>
                    if t_type t = Wall then Some False
                    else if x = p_x (player state) \<and> y = p_y (player state) then Some False
                    else if otherLiveEnemyAt state idx x y then Some False
                    else Some True)))"

definition enemyAttackPlayer :: "GameState \<Rightarrow> Enemy \<Rightarrow> GameEvent list \<times> GameState" where
  "enemyAttackPlayer state enemy =
     (let damage = max 1 (e_attack enemy - p_defense (player state));
          s1 = state\<lparr>player := (player state)\<lparr>p_hp := p_hp (player state) - damage\<rparr>\<rparr>
      in if p_hp (player s1) \<le> 0 then
           ([PlayerDamaged, PlayerDied (e_type enemy)], s1\<lparr>status := Dead\<rparr>)
         else ([PlayerDamaged], s1))"

definition isAdjacentToPlayer :: "Enemy \<Rightarrow> int \<Rightarrow> int \<Rightarrow> bool" where
  "isAdjacentToPlayer enemy px py =
     (let dx = \<bar>px - e_x enemy\<bar>; dy = \<bar>py - e_y enemy\<bar>
      in (dx = 1 \<and> dy = 0) \<or> (dx = 0 \<and> dy = 1))"

definition MAX_PATHFINDING_ENEMIES :: nat where
  "MAX_PATHFINDING_ENEMIES = 5"

text \<open>
  One round of the \<open>for\<close> loop of \<open>moveEnemies\<close> ends in \<open>continue\<close>/\<open>break\<close> (the loop goes
  on) or in \<open>return events\<close> (the player died). Both carry the state, the pathfinding
  counter and the events so far.
\<close>

datatype 'a loopStep = Continue 'a | Return 'a

type_synonym aiState = "GameState \<times> nat \<times> GameEvent list"

text \<open>
  \<open>enemyAttackPlayer\<close> followed by \<open>if (state.status === 'dead') return events\<close>, the
  sequence every attacking branch of \<open>moveEnemies\<close> runs.
\<close>

definition attackThenCheck :: "GameState \<Rightarrow> Enemy \<Rightarrow> nat \<Rightarrow> GameEvent list \<Rightarrow> aiState loopStep" where
  "attackThenCheck state enemy pathfindingCount events =
     (let (attackEvents, s1) = enemyAttackPlayer state enemy;
          events1 = events @ attackEvents
      in if status s1 = Dead then Return (s1, pathfindingCount, events1)
         else Continue (s1, pathfindingCount, events1))"

text \<open>
  \<open>hpPercent < 0.3\<close> with \<open>hpPercent = enemy.hp / enemy.maxHp\<close>. Division by zero gives an
  infinity or NaN in JavaScript, which is below 0.3 only for a negative numerator.
\<close>

definition hpBelowFleeThreshold :: "Enemy \<Rightarrow> bool" where
  "hpBelowFleeThreshold enemy =
     (if e_maxHp enemy = 0 then e_hp enemy < 0
      else (of_int (e_hp enemy) / of_int (e_maxHp enemy) :: rat) < 3 / 10)"

text \<open>The fleeing branch of \<open>case 'flee'\<close>.\<close>

definition moveEnemies_flee :: "GameState \<Rightarrow> nat \<Rightarrow> int \<Rightarrow> int \<Rightarrow> GameState option" where
  "moveEnemies_flee state idx px py =
     (let enemy = enemies state ! idx;
          fleeX = e_x enemy + (if e_x enemy > px then 1 else - 1);
          fleeY = e_y enemy + (if e_y enemy > py then 1 else - 1)
      in case canMoveToTile state idx fleeX (e_y enemy) of
           None \<Rightarrow> None
         | Some True \<Rightarrow> Some (state\<lparr>enemies := (enemies state)[idx := enemy\<lparr>e_x := fleeX\<rparr>]\<rparr>)
         | Some False \<Rightarrow>
             (case canMoveToTile state idx (e_x enemy) fleeY of
                None \<Rightarrow> None
              | Some True \<Rightarrow> Some (state\<lparr>enemies := (enemies state)[idx := enemy\<lparr>e_y := fleeY\<rparr>]\<rparr>)
              | Some False \<Rightarrow> Some state))"

text \<open>
  The pathfinding call under its per-turn budget: \<open>step\<close> stays \<open>null\<close> once
  \<open>MAX_PATHFINDING_ENEMIES\<close> calls were made.
\<close>

definition budgetedPath ::
  "GameState \<Rightarrow> Enemy \<Rightarrow> int \<Rightarrow> int \<Rightarrow> nat \<Rightarrow> (Coordinate option \<times> nat) option" where
  "budgetedPath state enemy targetX targetY pathfindingCount =
     (if pathfindingCount < MAX_PATHFINDING_ENEMIES then
        (case findPathToTarget state (e_x enemy) (e_y enemy) targetX targetY 20 of
           None \<Rightarrow> None
         | Some step \<Rightarrow> Some (step, Suc pathfindingCount))
      else Some (None, pathfindingCount))"

text \<open>The aggressive behaviour (also reached from \<open>case 'flee'\<close> when the enemy does not flee).\<close>

definition moveEnemies_aggressive ::
  "GameState \<Rightarrow> nat \<Rightarrow> int \<Rightarrow> int \<Rightarrow> bool \<Rightarrow> nat \<Rightarrow> GameEvent list \<Rightarrow> aiState loopStep option" where
  "moveEnemies_aggressive state idx px py canSeePlayer pathfindingCount events =
     (let enemy = enemies state ! idx in
      if \<not> canSeePlayer \<and> e_lastSeenPlayer enemy = None then
        Some (Continue (state, pathfindingCount, events))
      else
        let targetX = (if canSeePlayer then px
                       else (case e_lastSeenPlayer enemy of Some c \<Rightarrow> fst c | None \<Rightarrow> px));
            targetY = (if canSeePlayer then py
                       else (case e_lastSeenPlayer enemy of Some c \<Rightarrow> snd c | None \<Rightarrow> py))
        in if isAdjacentToPlayer enemy px py then
             Some (attackThenCheck state enemy pathfindingCount events)
           else
             (case budgetedPath state enemy targetX targetY pathfindingCount of
                None \<Rightarrow> None
              | Some (Some (stepX, stepY), count1) \<Rightarrow>
                  if stepX = px \<and> stepY = py then
                    Some (attackThenCheck state enemy count1 events)
                  else
                    (case canMoveToTile state idx stepX stepY of
                       None \<Rightarrow> None
                     | Some True \<Rightarrow>
                         let enemy' = enemy\<lparr>e_x := stepX, e_y := stepY\<rparr>;
                             s1 = state\<lparr>enemies := (enemies state)[idx := enemy']\<rparr>
                         in if isAdjacentToPlayer enemy' px py then
                              Some (attackThenCheck s1 enemy' count1 events)
                            else Some (Continue (s1, count1, events))
                     | Some False \<Rightarrow> Some (Continue (state, count1, events)))
              | Some (None, count1) \<Rightarrow>
                  if \<not> canSeePlayer \<and> e_lastSeenPlayer enemy \<noteq> None then
                    (if e_lastSeenPlayer enemy = Some (e_x enemy, e_y enemy) then
                       Some (Continue
                         (state\<lparr>enemies := (enemies state)[idx := enemy\<lparr>e_lastSeenPlayer := None\<rparr>]\<rparr>,
                          count1, events))
                     else Some (Continue (state, count1, events)))
                  else Some (Continue (state, count1, events))))"

definition moveEnemies_patrol ::
  "GameState \<Rightarrow> nat \<Rightarrow> int \<Rightarrow> int \<Rightarrow> bool \<Rightarrow> nat \<Rightarrow> GameEvent list \<Rightarrow> aiState loopStep option" where
  "moveEnemies_patrol state idx px py canSeePlayer pathfindingCount events =
     (let enemy = enemies state ! idx in
      if canSeePlayer then
        if isAdjacentToPlayer enemy px py then
          Some (attackThenCheck state enemy pathfindingCount events)
        else
          (case budgetedPath state enemy px py pathfindingCount of
             None \<Rightarrow> None
           | Some (Some (stepX, stepY), count1) \<Rightarrow>
               (case canMoveToTile state idx stepX stepY of
                  None \<Rightarrow> None
                | Some True \<Rightarrow>
                    let enemy' = enemy\<lparr>e_x := stepX, e_y := stepY\<rparr>;
                        s1 = state\<lparr>enemies := (enemies state)[idx := enemy']\<rparr>
                    in if isAdjacentToPlayer enemy' px py then
                         Some (attackThenCheck s1 enemy' count1 events)
                       else Some (Continue (s1, count1, events))
                | Some False \<Rightarrow> Some (Continue (state, count1, events)))
           | Some (None, count1) \<Rightarrow> Some (Continue (state, count1, events)))
      else Some (Continue (state, pathfindingCount, events)))"

definition moveEnemies_stationary ::
  "GameState \<Rightarrow> nat \<Rightarrow> int \<Rightarrow> int \<Rightarrow> nat \<Rightarrow> GameEvent list \<Rightarrow> aiState loopStep option" where
  "moveEnemies_stationary state idx px py pathfindingCount events =
     (let enemy = enemies state ! idx in
      if isAdjacentToPlayer enemy px py then
        Some (attackThenCheck state enemy pathfindingCount events)
      else Some (Continue (state, pathfindingCount, events)))"

text \<open>The body of the \<open>for\<close> loop for one enemy that is within detection range.\<close>

definition enemyTurn ::
  "GameState \<Rightarrow> nat \<Rightarrow> int \<Rightarrow> int \<Rightarrow> nat \<Rightarrow> GameEvent list \<Rightarrow> aiState loopStep option" where
  "enemyTurn state idx px py pathfindingCount events =
     (let enemy0 = enemies state ! idx;
          canSeePlayer = hasLineOfSight state (e_x enemy0) (e_y enemy0) px py;
          s1 = (if canSeePlayer then
                  state\<lparr>enemies := (enemies state)[idx := enemy0\<lparr>e_lastSeenPlayer := Some (px, py)\<rparr>]\<rparr>
                else state);
          enemy = enemies s1 ! idx
      in case e_behavior enemy of
           Flee \<Rightarrow>
             if hpBelowFleeThreshold enemy \<and> canSeePlayer then
               (case moveEnemies_flee s1 idx px py of
                  None \<Rightarrow> None
                | Some s2 \<Rightarrow> Some (Continue (s2, pathfindingCount, events)))
             else moveEnemies_aggressive s1 idx px py canSeePlayer pathfindingCount events
         | Aggressive \<Rightarrow> moveEnemies_aggressive s1 idx px py canSeePlayer pathfindingCount events
         | Patrol \<Rightarrow> moveEnemies_patrol s1 idx px py canSeePlayer pathfindingCount events
         | Stationary \<Rightarrow> moveEnemies_stationary s1 idx px py pathfindingCount events)"

fun moveEnemiesLoop ::
  "(nat \<times> int) list \<Rightarrow> int \<Rightarrow> int \<Rightarrow> GameState \<Rightarrow> nat \<Rightarrow> GameEvent list
     \<Rightarrow> (GameEvent list \<times> GameState) option" where
  "moveEnemiesLoop [] px py state pathfindingCount events = Some (events, state)"
| "moveEnemiesLoop ((idx, dst) # rest) px py state pathfindingCount events =
     (if dst > VISION_RADIUS + 2 then moveEnemiesLoop rest px py state pathfindingCount events
      else
        (case enemyTurn state idx px py pathfindingCount events of
           None \<Rightarrow> None
         | Some (Return (s, c, evs)) \<Rightarrow> Some (evs, s)
         | Some (Continue (s, c, evs)) \<Rightarrow> moveEnemiesLoop rest px py s c evs))"

text \<open>
  The live enemies with their Manhattan distance to the player, closest first;
  \<open>Array.prototype.sort\<close> is stable, as \<^const>\<open>sort_key\<close> is.
\<close>

definition activeEnemies :: "GameState \<Rightarrow> (nat \<times> int) list" where
  "activeEnemies state =
     sort_key snd
       (map (\<lambda>(j, e). (j, \<bar>e_x e - p_x (player state)\<bar> + \<bar>e_y e - p_y (player state)\<bar>))
          (filter (\<lambda>(j, e). e_hp e > 0) (enumerate 0 (enemies state))))"

definition moveEnemies :: "GameState \<Rightarrow> (GameEvent list \<times> GameState) option" where
  "moveEnemies state =
     moveEnemiesLoop (activeEnemies state) (p_x (player state)) (p_y (player state)) state 0 []"

section \<open>Map generator (apps/api/src/services/mapGenerator.ts)\<close>

text \<open>
  The generator's two sources of nondeterminism are parameters: \<open>rnd k\<close> is the value of
  the \<open>k\<close>-th call of \<open>Math.random()\<close> (a number in \<open>[0, 1)\<close>), and \<open>uuid u\<close> is the value
  of the \<open>u\<close>-th call of \<open>randomUUID()\<close>. The functions below count the calls they make.
\<close>

definition randomInt :: "(nat \<Rightarrow> rat) \<Rightarrow> nat \<Rightarrow> int \<Rightarrow> int \<Rightarrow> int" where
  "randomInt rnd k lo hi = \<lfloor>rnd k * of_int (hi - lo + 1)\<rfloor> + lo"

record Room =
  r_x :: int
  r_y :: int
  r_width :: int
  r_height :: int

definition roomsOverlap :: "Room \<Rightarrow> Room \<Rightarrow> bool" where
  "roomsOverlap a b =
     (r_x a < r_x b + r_width b + 1 \<and> r_x a + r_width a + 1 > r_x b
      \<and> r_y a < r_y b + r_height b + 1 \<and> r_y a + r_height a + 1 > r_y b)"

definition wallMap :: "Tile list list" where
  "wallMap =
     map (\<lambda>y. map (\<lambda>x. \<lparr>t_type = Wall, t_x = x, t_y = y\<rparr>) [0..MAP_WIDTH - 1]) [0..MAP_HEIGHT - 1]"

text \<open>The room placement loop; \<open>i\<close> counts the attempts and \<open>k\<close> the random draws.\<close>

function placeRooms :: "(nat \<Rightarrow> rat) \<Rightarrow> int \<Rightarrow> nat \<Rightarrow> Room list \<Rightarrow> nat \<Rightarrow> Room list \<times> nat" where
  "placeRooms rnd numRooms i rooms k =
     (if i < 100 \<and> int (length rooms) < numRooms then
        let room = \<lparr>r_x = randomInt rnd k 1 (MAP_WIDTH - 10),
                    r_y = randomInt rnd (k + 1) 1 (MAP_HEIGHT - 8),
                    r_width = randomInt rnd (k + 2) 4 8,
                    r_height = randomInt rnd (k + 3) 4 6\<rparr>
        in if r_x room + r_width room \<ge> MAP_WIDTH - 1 then
             placeRooms rnd numRooms (Suc i) rooms (k + 4)
           else if r_y room + r_height room \<ge> MAP_HEIGHT - 1 then
             placeRooms rnd numRooms (Suc i) rooms (k + 4)
           else if list_ex (\<lambda>r. roomsOverlap room r) rooms then
             placeRooms rnd numRooms (Suc i) rooms (k + 4)
           else placeRooms rnd numRooms (Suc i) (rooms @ [room]) (k + 4)
      else (rooms, k))"
  by pat_completeness auto
termination
  by (relation "measure (\<lambda>(rnd, numRooms, i, rooms, k). 100 - i)") auto

text \<open>
  \<open>map[y][x] = tile\<close>. The map is the generator's own 24 by 40 array; a write outside it
  (a \<open>TypeError\<close> for a missing row, a grown row otherwise) gives \<open>None\<close>. For draws in
  \<open>[0, 1)\<close> no write is outside (\<open>generateMap_total\<close> below).
\<close>

definition setTile :: "Tile list list \<Rightarrow> int \<Rightarrow> int \<Rightarrow> Tile \<Rightarrow> Tile list list option" where
  "setTile m x y t =
     (if 0 \<le> y \<and> y < int (length m) \<and> 0 \<le> x \<and> x < int (length (m ! nat y))
      then Some (m[nat y := (m ! nat y)[nat x := t]])
      else None)"

fun carveCells :: "Tile list list \<Rightarrow> (int \<times> int) list \<Rightarrow> Tile list list option" where
  "carveCells m [] = Some m"
| "carveCells m ((x, y) # cs) =
     (case setTile m x y \<lparr>t_type = Floor, t_x = x, t_y = y\<rparr> of
        None \<Rightarrow> None
      | Some m' \<Rightarrow> carveCells m' cs)"

definition roomCells :: "Room \<Rightarrow> (int \<times> int) list" where
  "roomCells room =
     concat (map (\<lambda>y. map (\<lambda>x. (x, y)) [r_x room..r_x room + r_width room - 1])
                 [r_y room..r_y room + r_height room - 1])"

fun carveRooms :: "Tile list list \<Rightarrow> Room list \<Rightarrow> Tile list list option" where
  "carveRooms m [] = Some m"
| "carveRooms m (room # rooms) =
     (case carveCells m (roomCells room) of
        None \<Rightarrow> None
      | Some m' \<Rightarrow> carveRooms m' rooms)"

definition carveCorridor :: "Tile list list \<Rightarrow> int \<Rightarrow> int \<Rightarrow> int \<Rightarrow> int \<Rightarrow> Tile list list option" where
  "carveCorridor m x1 y1 x2 y2 =
     carveCells m (map (\<lambda>x. (x, y1)) [min x1 x2..max x1 x2]
                   @ map (\<lambda>y. (x2, y)) [min y1 y2..max y1 y2])"

text \<open>\<open>Math.floor(room.x + room.width / 2)\<close> and its vertical counterpart.\<close>

definition centerX :: "Room \<Rightarrow> int" where
  "centerX room = \<lfloor>(of_int (r_x room) + of_int (r_width room) / 2 :: rat)\<rfloor>"

definition centerY :: "Room \<Rightarrow> int" where
  "centerY room = \<lfloor>(of_int (r_y room) + of_int (r_height room) / 2 :: rat)\<rfloor>"

text \<open>The comparator of \<open>rooms.sort\<close> orders by this key; the sort is stable.\<close>

definition roomSortKey :: "Room \<Rightarrow> rat" where
  "roomSortKey a =
     (of_int (r_x a) + of_int (r_width a) / 2) + (of_int (r_y a) + of_int (r_height a) / 2) * (1 / 2)"

definition sortRooms :: "Room list \<Rightarrow> Room list" where
  "sortRooms rooms = sort_key roomSortKey rooms"

fun connectRooms :: "Tile list list \<Rightarrow> Room list \<Rightarrow> Tile list list option" where
  "connectRooms m (prevRoom # currRoom # rest) =
     (case carveCorridor m (centerX prevRoom) (centerY prevRoom)
             (centerX currRoom) (centerY currRoom) of
        None \<Rightarrow> None
      | Some m' \<Rightarrow> connectRooms m' (currRoom # rest))"
| "connectRooms m [prevRoom] = Some m"
| "connectRooms m [] = Some m"

text \<open>\<open>xs[i]\<close> for reading; \<open>None\<close> is \<open>undefined\<close>.\<close>

definition nthOpt :: "'a list \<Rightarrow> int \<Rightarrow> 'a option" where
  "nthOpt xs i = (if 0 \<le> i \<and> i < int (length xs) then Some (xs ! nat i) else None)"

text \<open>\<open>xs.slice(0, n)\<close>; a negative \<open>n\<close> counts from the end.\<close>

definition slice0 :: "'a list \<Rightarrow> int \<Rightarrow> 'a list" where
  "slice0 xs n = (if n < 0 then take (nat (int (length xs) + n)) xs else take (nat n) xs)"

subsection \<open>Enemy construction (packages/shared/src/index.ts)\<close>

definition getEnemyVariant :: "(nat \<Rightarrow> rat) \<Rightarrow> nat \<Rightarrow> int \<Rightarrow> EnemyVariant" where
  "getEnemyVariant rnd k fl =
     (let roll = rnd k;
          eliteChance = min (1 / 10 + of_int fl * (1 / 20)) (2 / 5);
          championChance = min (max 0 (of_int (fl - 1) * (1 / 25))) (1 / 5)
      in if roll < championChance then Champion
         else if roll < championChance + eliteChance then Elite
         else Normal)"

definition capitalizeEnemyType :: "EnemyType \<Rightarrow> string" where
  "capitalizeEnemyType ty =
     (case ty of Rat \<Rightarrow> ''Rat'' | Skeleton \<Rightarrow> ''Skeleton'' | Orc \<Rightarrow> ''Orc'' | Dragon \<Rightarrow> ''Dragon'')"

text \<open>\<open>getEnemyBehavior\<close> draws a random number for skeletons and orcs only.\<close>

definition getEnemyBehavior :: "(nat \<Rightarrow> rat) \<Rightarrow> nat \<Rightarrow> EnemyType \<Rightarrow> AIBehavior \<times> nat" where
  "getEnemyBehavior rnd k ty =
     (case ty of
        Rat \<Rightarrow> (Flee, k)
      | Dragon \<Rightarrow> (Aggressive, k)
      | _ \<Rightarrow> (if rnd k < 7 / 10 then Aggressive else Patrol, Suc k))"

definition createEnemy ::
  "(nat \<Rightarrow> rat) \<Rightarrow> nat \<Rightarrow> string \<Rightarrow> EnemyType \<Rightarrow> int \<Rightarrow> int \<Rightarrow> int \<Rightarrow> Enemy \<times> nat" where
  "createEnemy rnd k ident ty x y fl =
     (let variant = getEnemyVariant rnd k fl;
          mult = VARIANT_MULTIPLIERS variant;
          base = ENEMY_STATS ty;
          (behavior, k') = getEnemyBehavior rnd (Suc k) ty
      in (\<lparr>e_id = ident, e_type = ty, e_variant = variant,
           e_displayName = namePrefix mult @ capitalizeEnemyType ty,
           e_x = x, e_y = y,
           e_hp = \<lfloor>of_int (bs_hp base) * hpMult mult\<rfloor>,
           e_maxHp = \<lfloor>of_int (bs_hp base) * hpMult mult\<rfloor>,
           e_attack = \<lfloor>of_int (bs_attack base) * attackMult mult\<rfloor>,
           e_defense = \<lfloor>of_int (bs_defense base) * defenseMult mult\<rfloor>,
           e_behavior = behavior, e_lastSeenPlayer = None\<rparr>, k'))"

subsection \<open>Seeding enemies and items\<close>

text \<open>
  The three seeding loops; the first argument that is a natural number is the number of
  rounds left, \<open>k\<close> and \<open>u\<close> count the random draws and the identifiers drawn.
\<close>

fun spawnEnemies ::
  "(nat \<Rightarrow> rat) \<Rightarrow> (nat \<Rightarrow> string) \<Rightarrow> Room list \<Rightarrow> EnemyType list \<Rightarrow> int \<Rightarrow> nat \<Rightarrow> nat \<Rightarrow> nat
     \<Rightarrow> Enemy list \<Rightarrow> (Enemy list \<times> nat \<times> nat) option" where
  "spawnEnemies rnd uuid rooms availableTypes fl 0 k u acc = Some (acc, k, u)"
| "spawnEnemies rnd uuid rooms availableTypes fl (Suc n) k u acc =
     (if length rooms > 1 then
        (case nthOpt rooms (randomInt rnd k 1 (int (length rooms) - 1)) of
           None \<Rightarrow> None
         | Some room \<Rightarrow>
             let x = randomInt rnd (k + 1) (r_x room) (r_x room + r_width room - 1);
                 y = randomInt rnd (k + 2) (r_y room) (r_y room + r_height room - 1)
             in (case nthOpt availableTypes
                        (randomInt rnd (k + 3) 0 (int (length availableTypes) - 1)) of
                   None \<Rightarrow> None
                 | Some ty \<Rightarrow>
                     let (enemy, k') = createEnemy rnd (k + 4) (uuid u) ty x y fl
                     in spawnEnemies rnd uuid rooms availableTypes fl n k' (Suc u) (acc @ [enemy])))
      else Some (acc, k, u))"

fun spawnPotions ::
  "(nat \<Rightarrow> rat) \<Rightarrow> (nat \<Rightarrow> string) \<Rightarrow> Room list \<Rightarrow> nat \<Rightarrow> nat \<Rightarrow> nat \<Rightarrow> Item list
     \<Rightarrow> (Item list \<times> nat \<times> nat) option" where
  "spawnPotions rnd uuid rooms 0 k u acc = Some (acc, k, u)"
| "spawnPotions rnd uuid rooms (Suc n) k u acc =
     (case nthOpt rooms (randomInt rnd k 0 (int (length rooms) - 1)) of
        None \<Rightarrow> None
      | Some room \<Rightarrow>
          let x = randomInt rnd (k + 1) (r_x room) (r_x room + r_width room - 1);
              y = randomInt rnd (k + 2) (r_y room) (r_y room + r_height room - 1)
          in spawnPotions rnd uuid rooms n (k + 3) (Suc u)
               (acc @ [\<lparr>i_id = uuid u, i_type = HealthPotion, i_name = ''Health Potion'',
                         i_x = x, i_y = y, i_value = 10, i_equipment = None\<rparr>]))"

fun spawnEquipment ::
  "(nat \<Rightarrow> rat) \<Rightarrow> (nat \<Rightarrow> string) \<Rightarrow> Room list \<Rightarrow> Equipment list \<Rightarrow> nat \<Rightarrow> nat \<Rightarrow> nat
     \<Rightarrow> Item list \<Rightarrow> (Item list \<times> nat \<times> nat) option" where
  "spawnEquipment rnd uuid rooms availableEquipment 0 k u acc = Some (acc, k, u)"
| "spawnEquipment rnd uuid rooms availableEquipment (Suc n) k u acc =
     (if length availableEquipment > 0 then
        (case nthOpt rooms (randomInt rnd k 0 (int (length rooms) - 1)) of
           None \<Rightarrow> None
         | Some room \<Rightarrow>
             let x = randomInt rnd (k + 1) (r_x room) (r_x room + r_width room - 1);
                 y = randomInt rnd (k + 2) (r_y room) (r_y room + r_height room - 1)
             in (case nthOpt availableEquipment
                        (randomInt rnd (k + 3) 0 (int (length availableEquipment) - 1)) of
                   None \<Rightarrow> None
                 | Some equipment \<Rightarrow>
                     spawnEquipment rnd uuid rooms availableEquipment n (k + 4) (Suc u)
                       (acc @ [\<lparr>i_id = uuid u, i_type = EquipmentType, i_name = eq_name equipment,
                                 i_x = x, i_y = y, i_value = 0, i_equipment = Some equipment\<rparr>])))
      else Some (acc, k, u))"

text \<open>The character filter on ranged weapons; \<open>e.id.includes(s)\<close> is \<^const>\<open>sublist\<close>.\<close>

definition equipmentForCharacter :: "CharacterType \<Rightarrow> Equipment \<Rightarrow> bool" where
  "equipmentForCharacter character e =
     (if eq_slot e \<noteq> Ranged then True
      else (case character of
              Wizard \<Rightarrow> sublist ''staff'' (eq_id e)
            | Bandit \<Rightarrow> sublist ''crossbow'' (eq_id e)
            | Elf \<Rightarrow> sublist ''dagger'' (eq_id e)
            | Dwarf \<Rightarrow> sublist ''dagger'' (eq_id e)))"

record MapResult =
  mr_map :: "Tile list list"
  playerStart :: Coordinate
  mr_enemies :: "Enemy list"
  mr_items :: "Item list"

definition ENEMY_TYPES :: "EnemyType list" where
  "ENEMY_TYPES = [Rat, Skeleton, Orc, Dragon]"

text \<open>
  The rooms of a floor, in the order the generator uses them after sorting, and the number
  of random draws made so far. The first draw is \<open>numRooms\<close>.
\<close>

definition generateRooms :: "(nat \<Rightarrow> rat) \<Rightarrow> Room list \<times> nat" where
  "generateRooms rnd =
     (let numRooms = randomInt rnd 0 5 8;
          (rooms, k) = placeRooms rnd numRooms 0 [] 1
      in (rooms, k))"

text \<open>The map of a floor: rooms carved unsorted, corridors along the sorted order, stairs.\<close>

definition generateTiles :: "Room list \<Rightarrow> Tile list list option" where
  "generateTiles rooms0 =
     (case carveRooms wallMap rooms0 of
        None \<Rightarrow> None
      | Some tiles1 \<Rightarrow>
          let rooms = sortRooms rooms0 in
          (case connectRooms tiles1 rooms of
             None \<Rightarrow> None
           | Some tiles2 \<Rightarrow>
               (case (if length rooms \<ge> 2 then
                        carveCorridor tiles2 (centerX (hd rooms)) (centerY (hd rooms))
                          (centerX (last rooms)) (centerY (last rooms))
                      else Some tiles2) of
                  None \<Rightarrow> None
                | Some tiles3 \<Rightarrow>
                    (case rooms of
                       [] \<Rightarrow> None
                     | _ \<Rightarrow>
                         let lastRoom = last rooms;
                             stairsX = centerX lastRoom;
                             stairsY = centerY lastRoom
                         in setTile tiles3 stairsX stairsY
                              \<lparr>t_type = Stairs, t_x = stairsX, t_y = stairsY\<rparr>))))"

definition generateMap ::
  "(nat \<Rightarrow> rat) \<Rightarrow> (nat \<Rightarrow> string) \<Rightarrow> int \<Rightarrow> CharacterType \<Rightarrow> MapResult option" where
  "generateMap rnd uuid fl character =
     (let (rooms0, k1) = generateRooms rnd in
      case generateTiles rooms0 of
        None \<Rightarrow> None
      | Some tiles \<Rightarrow>
          let rooms = sortRooms rooms0;
              firstRoom = hd rooms;
              start = (centerX firstRoom, centerY firstRoom);
              numEnemies = randomInt rnd k1 3 5 + fl div 2;
              availableTypes = slice0 ENEMY_TYPES (min (1 + fl div 3) 4)
          in (case spawnEnemies rnd uuid rooms availableTypes fl (nat numEnemies) (Suc k1) 0 [] of
                None \<Rightarrow> None
              | Some (enemies1, k2, u2) \<Rightarrow>
                  let numPotions = randomInt rnd k2 1 3 in
                  (case spawnPotions rnd uuid rooms (nat numPotions) (Suc k2) u2 [] of
                     None \<Rightarrow> None
                   | Some (potions, k3, u3) \<Rightarrow>
                       let allEquipment = getEquipmentForFloor fl;
                           availableEquipment = filter (equipmentForCharacter character) allEquipment;
                           numEquipment = randomInt rnd k3 1 2
                       in (case spawnEquipment rnd uuid rooms availableEquipment
                                  (nat numEquipment) (Suc k3) u3 potions of
                             None \<Rightarrow> None
                           | Some (items1, k4, u4) \<Rightarrow>
                               Some \<lparr>mr_map = tiles, playerStart = start,
                                     mr_enemies = enemies1, mr_items = items1\<rparr>))))"

definition initializeFog :: "bool list list" where
  "initializeFog = replicate (nat MAP_HEIGHT) (replicate (nat MAP_WIDTH) False)"

section \<open>Turn engine (apps/api/src/services/gameLogic.ts)\<close>

text \<open>
  \<open>descendStairs\<close>; \<open>now\<close> is the clock reading that \<open>new Date()\<close> returns.
\<close>

definition descendStairs ::
  "(nat \<Rightarrow> rat) \<Rightarrow> (nat \<Rightarrow> string) \<Rightarrow> nat \<Rightarrow> GameState \<Rightarrow> (GameEvent list \<times> GameState) option" where
  "descendStairs rnd uuid now state =
     (if status state \<noteq> Active then Some ([], state)
      else
        (case tileAt (gs_map state) (p_x (player state)) (p_y (player state)) of
           None \<Rightarrow> None
         | Some currentTile \<Rightarrow>
             if t_type currentTile \<noteq> Stairs then Some ([], state)
             else
               let s1 = state\<lparr>gs_floor := gs_floor state + 1\<rparr> in
               (case generateMap rnd uuid (gs_floor s1) (p_character (player s1)) of
                  None \<Rightarrow> None
                | Some g \<Rightarrow>
                    let s2 = s1\<lparr>gs_map := mr_map g,
                               player := (player s1)\<lparr>p_x := fst (playerStart g),
                                                     p_y := snd (playerStart g)\<rparr>,
                               enemies := mr_enemies g,
                               items := mr_items g,
                               fog := initializeFog\<rparr>
                    in (case updateFog s2 of
                          None \<Rightarrow> None
                        | Some s3 \<Rightarrow>
                            let s4 = s3\<lparr>score := score s3 + 100, updatedAt := now\<rparr> in
                            if gs_floor s4 \<ge> 20 then
                              Some ([FloorDescended, GameWon],
                                    s4\<lparr>status := Won, score := score s4 + 1000\<rparr>)
                            else Some ([FloorDescended], s4)))))"

text \<open>The \<open>// Check for items\<close> block of \<open>processMove\<close>.\<close>

definition checkForItems :: "GameState \<Rightarrow> int \<Rightarrow> int \<Rightarrow> GameEvent list \<times> GameState" where
  "checkForItems state newX newY =
     (case findIndex (\<lambda>i. i_x i = newX \<and> i_y i = newY) (items state) of
        None \<Rightarrow> ([], state)
      | Some itemIndex \<Rightarrow>
          let item = items state ! itemIndex in
          if i_type item = HealthPotion then
            (if p_hp (player state) \<ge> p_maxHp (player state) then ([PotionRefused], state)
             else
               let s1 = state\<lparr>items := splice1 (items state) itemIndex\<rparr>;
                   healAmount = min (i_value item) (p_maxHp (player s1) - p_hp (player s1));
                   s2 = s1\<lparr>player := (player s1)\<lparr>p_hp := p_hp (player s1) + healAmount\<rparr>\<rparr>
               in ([PlayerHealed (i_id item) healAmount], s2))
          else if isEquipmentItem item then
            (case i_equipment item of
               Some equipment \<Rightarrow> handleEquipmentPickup state (i_id item) equipment itemIndex
             | None \<Rightarrow> ([], state))
          else
            let s1 = state\<lparr>items := splice1 (items state) itemIndex\<rparr>;
                s2 = s1\<lparr>player := (player s1)\<lparr>p_inventory := p_inventory (player s1) @ [item]\<rparr>\<rparr>
            in ([ItemPickedUp (i_id item) (i_name item)], s2))"

definition setFacing :: "GameState \<Rightarrow> Direction \<Rightarrow> GameState" where
  "setFacing state direction =
     (if direction = DirLeft then
        state\<lparr>player := (player state)\<lparr>p_facingDirection := FaceLeft\<rparr>\<rparr>
      else if direction = DirRight then
        state\<lparr>player := (player state)\<lparr>p_facingDirection := FaceRight\<rparr>\<rparr>
      else state)"

text \<open>
  The end of \<open>processMove\<close> after the attack or the move: fog update, enemy AI while the
  game is active, time stamp.
\<close>

definition finishMove :: "nat \<Rightarrow> GameEvent list \<Rightarrow> GameState \<Rightarrow> (GameEvent list \<times> GameState) option" where
  "finishMove now events state =
     (case updateFog state of
        None \<Rightarrow> None
      | Some s1 \<Rightarrow>
          if status s1 = Active then
            (case moveEnemies s1 of
               None \<Rightarrow> None
             | Some (enemyEvents, s2) \<Rightarrow> Some (events @ enemyEvents, s2\<lparr>updatedAt := now\<rparr>))
          else Some (events, s1\<lparr>updatedAt := now\<rparr>))"

text \<open>
  \<open>processMove\<close>. The tile read for the stairs test is the tile read for the wall test:
  nothing in between writes the map.
\<close>

definition processMove ::
  "(nat \<Rightarrow> rat) \<Rightarrow> (nat \<Rightarrow> string) \<Rightarrow> nat \<Rightarrow> GameState \<Rightarrow> Direction
     \<Rightarrow> (GameEvent list \<times> GameState) option" where
  "processMove rnd uuid now state direction =
     (if status state \<noteq> Active then Some ([], state)
      else
        let dx = (if direction = DirLeft then - 1 else if direction = DirRight then 1 else 0);
            dy = (if direction = Up then - 1 else if direction = Down then 1 else 0);
            newX = p_x (player state) + dx;
            newY = p_y (player state) + dy
        in if newY < 0 \<or> newY \<ge> int (length (gs_map state)) \<or> newX < 0 then Some ([], state)
           else
             (case mapWidth (gs_map state) of
                None \<Rightarrow> None
              | Some w \<Rightarrow>
                  if newX \<ge> w then Some ([], state)
                  else
                    (case tileAt (gs_map state) newX newY of
                       None \<Rightarrow> None
                     | Some tile \<Rightarrow>
                         if t_type tile = Wall then Some ([], state)
                         else
                           (case findIndex (\<lambda>e. e_x e = newX \<and> e_y e = newY \<and> e_hp e > 0)
                                   (enemies state) of
                              Some enemyAtTarget \<Rightarrow>
                                let s1 = setFacing state direction;
                                    (attackEvents, s2) = attackEnemy s1 enemyAtTarget
                                in finishMove now attackEvents s2
                            | None \<Rightarrow>
                                let s1 = state\<lparr>player := (player state)\<lparr>p_x := newX, p_y := newY\<rparr>\<rparr>;
                                    s2 = setFacing s1 direction;
                                    (itemEvents, s3) = checkForItems s2 newX newY;
                                    events = PlayerMoved # itemEvents
                                in if t_type tile = Stairs then
                                     (case descendStairs rnd uuid now s3 of
                                        None \<Rightarrow> None
                                      | Some (descendEvents, s4) \<Rightarrow> Some (events @ descendEvents, s4))
                                   else finishMove now events s3))))"

subsection \<open>Ranged attack\<close>

definition getAttackType :: "CharacterType \<Rightarrow> AttackType" where
  "getAttackType character =
     (case character of Bandit \<Rightarrow> Bolt | Wizard \<Rightarrow> Spell | Elf \<Rightarrow> MagicDagger | Dwarf \<Rightarrow> Dagger)"

text \<open>
  The scan loop of \<open>processAttack\<close> over \<open>i = 1, ..., rangedRange\<close>. The accumulator is
  \<open>(hitEnemy, hitX, hitY)\<close>, the enemy by its index.
\<close>

fun rangedScan ::
  "GameState \<Rightarrow> int \<Rightarrow> int \<Rightarrow> int \<Rightarrow> int list \<Rightarrow> nat option \<times> int \<times> int
     \<Rightarrow> (nat option \<times> int \<times> int) option" where
  "rangedScan state playerX playerY dx [] acc = Some acc"
| "rangedScan state playerX playerY dx (i # rest) (hitEnemy, hitX, hitY) =
     (let checkX = playerX + dx * i; checkY = playerY in
      if checkX < 0 then Some (hitEnemy, playerX + dx * (i - 1), hitY)
      else
        (case mapWidth (gs_map state) of
           None \<Rightarrow> None
         | Some w \<Rightarrow>
             if checkX \<ge> w then Some (hitEnemy, playerX + dx * (i - 1), hitY)
             else
               (case tileAt (gs_map state) checkX checkY of
                  None \<Rightarrow> None
                | Some t \<Rightarrow>
                    if t_type t = Wall then Some (hitEnemy, checkX, checkY)
                    else
                      (case findIndex (\<lambda>e. e_x e = checkX \<and> e_y e = checkY \<and> e_hp e > 0)
                              (enemies state) of
                         Some j \<Rightarrow> Some (Some j, checkX, checkY)
                       | None \<Rightarrow> rangedScan state playerX playerY dx rest (hitEnemy, checkX, checkY)))))"

definition rangedDamageOf :: "Player \<Rightarrow> int" where
  "rangedDamageOf p =
     cs_rangedDamage (CHARACTER_STATS (p_character p))
     + (case ranged (p_equipment p) of Some e \<Rightarrow> rangedDamageBonus e | None \<Rightarrow> 0)"

definition rangedRangeOf :: "Player \<Rightarrow> int" where
  "rangedRangeOf p =
     cs_rangedRange (CHARACTER_STATS (p_character p))
     + (case ranged (p_equipment p) of Some e \<Rightarrow> rangedRangeBonus e | None \<Rightarrow> 0)"

text \<open>The projectile part of \<open>processAttack\<close>, up to the enemies' turn.\<close>

definition rangedShot :: "GameState \<Rightarrow> (GameEvent list \<times> GameState) option" where
  "rangedShot state =
     (let rangedDamage = rangedDamageOf (player state);
          rangedRange = rangedRangeOf (player state);
          attackType = getAttackType (p_character (player state));
          dx = (if p_facingDirection (player state) = FaceRight then 1 else - 1);
          playerX = p_x (player state);
          playerY = p_y (player state)
      in case rangedScan state playerX playerY dx [1..rangedRange] (None, playerX, playerY) of
           None \<Rightarrow> None
         | Some (Some j, hitX, hitY) \<Rightarrow>
             let hitEnemy = enemies state ! j;
                 damage = max 1 (rangedDamage - e_defense hitEnemy);
                 hitEnemy' = hitEnemy\<lparr>e_hp := e_hp hitEnemy - damage\<rparr>;
                 s1 = state\<lparr>enemies := (enemies state)[j := hitEnemy']\<rparr>;
                 shot = RangedAttack hitX hitY damage (Some (e_id hitEnemy')) attackType
             in if e_hp hitEnemy' \<le> 0 then
                  let s2 = s1\<lparr>score := score s1 + getEnemyScore (e_type hitEnemy')\<rparr>;
                      (xpEvents, s3) = grantXp s2 hitEnemy'
                  in Some ([shot, EnemyKilled (e_id hitEnemy') (e_type hitEnemy')] @ xpEvents, s3)
                else Some ([shot], s1)
         | Some (None, hitX, hitY) \<Rightarrow> Some ([RangedMissed hitX hitY 0 None attackType], state))"

definition processAttack :: "nat \<Rightarrow> GameState \<Rightarrow> (GameEvent list \<times> GameState) option" where
  "processAttack now state =
     (if status state \<noteq> Active then Some ([], state)
      else
        (case rangedShot state of
           None \<Rightarrow> None
         | Some (events, s1) \<Rightarrow>
             if status s1 = Active then
               (case moveEnemies s1 of
                  None \<Rightarrow> None
                | Some (enemyEvents, s2) \<Rightarrow> Some (events @ enemyEvents, s2\<lparr>updatedAt := now\<rparr>))
             else Some (events, s1\<lparr>updatedAt := now\<rparr>)))"

section \<open>Visibility filtering and deltas\<close>


definition getVisibleItems :: "GameState \<Rightarrow> Item list" where
  "getVisibleItems state = filter (\<lambda>i. fogAt (fog state) (i_x i) (i_y i)) (items state)"

record PlayerStatsDelta =
  d_hp :: "int option"
  d_maxHp :: "int option"
  d_attack :: "int option"
  d_defense :: "int option"
  d_xp :: "int option"
  d_level :: "int option"
  d_xpToNextLevel :: "int option"

text \<open>
  The delta kinds the two \<open>...WithDeltas\<close> functions of the attack and move paths emit for
  enemies, items, the player and the game; \<open>new_floor\<close> carries the visible enemies and
  items of the new floor.
\<close>

datatype GameDelta =
    DPlayerPos int int FacingDirection
  | DPlayerStats PlayerStatsDelta
  | DPlayerEquipment PlayerEquipment
  | DScore int
  | DEnemyVisible Enemy
  | DEnemyMoved string int int
  | DEnemyDamaged string int
  | DEnemyKilled string
  | DEnemyHidden string
  | DItemVisible Item
  | DItemRemoved string
  | DFogReveal "(int \<times> int) list"
  | DTilesReveal "Tile list"
  | DGameStatus GameStatus
  | DEvent GameEvent
  | DNewFloor "Enemy list" "Item list"

definition changed :: "int \<Rightarrow> int \<Rightarrow> int option" where
  "changed new old = (if new \<noteq> old then Some new else None)"

definition playerStatsDelta :: "Player \<Rightarrow> Player \<Rightarrow> GameDelta list" where
  "playerStatsDelta p prev_p =
     (if p_hp p \<noteq> p_hp prev_p \<or> p_maxHp p \<noteq> p_maxHp prev_p \<or> p_attack p \<noteq> p_attack prev_p
         \<or> p_defense p \<noteq> p_defense prev_p \<or> p_xp p \<noteq> p_xp prev_p \<or> p_level p \<noteq> p_level prev_p
         \<or> p_xpToNextLevel p \<noteq> p_xpToNextLevel prev_p
      then [DPlayerStats
              \<lparr>d_hp = changed (p_hp p) (p_hp prev_p),
               d_maxHp = changed (p_maxHp p) (p_maxHp prev_p),
               d_attack = changed (p_attack p) (p_attack prev_p),
               d_defense = changed (p_defense p) (p_defense prev_p),
               d_xp = changed (p_xp p) (p_xp prev_p),
               d_level = changed (p_level p) (p_level prev_p),
               d_xpToNextLevel = changed (p_xpToNextLevel p) (p_xpToNextLevel prev_p)\<rparr>]
      else [])"

text \<open>
  \<open>prevEnemyPositions\<close>: a \<open>Map\<close> from enemy id to \<open>{x, y, hp}\<close>; of two entries with one id
  the later one stays.
\<close>

definition prevEnemyPositions :: "Enemy list \<Rightarrow> string \<Rightarrow> (int \<times> int \<times> int) option" where
  "prevEnemyPositions es = map_of (rev (map (\<lambda>e. (e_id e, (e_x e, e_y e, e_hp e))) es))"

text \<open>The \<open>// Enemy deltas\<close> loop of \<open>processAttackWithDeltas\<close>, over all of \<open>state.enemies\<close>.\<close>

definition attackEnemyDeltas ::
  "(string \<Rightarrow> (int \<times> int \<times> int) option) \<Rightarrow> Enemy \<Rightarrow> GameDelta list" where
  "attackEnemyDeltas prevPos enemy =
     (case prevPos (e_id enemy) of
        None \<Rightarrow> []
      | Some (prevX, prevY, prevHp) \<Rightarrow>
          (if e_hp enemy \<noteq> prevHp \<and> e_hp enemy > 0 then [DEnemyDamaged (e_id enemy) (e_hp enemy)]
           else [])
          @ (if e_hp enemy \<le> 0 \<and> prevHp > 0 then [DEnemyKilled (e_id enemy)] else [])
          @ (if e_x enemy \<noteq> prevX \<or> e_y enemy \<noteq> prevY
             then [DEnemyMoved (e_id enemy) (e_x enemy) (e_y enemy)] else []))"

definition processAttackWithDeltas ::
  "nat \<Rightarrow> GameState \<Rightarrow> (GameEvent list \<times> GameDelta list \<times> GameState) option" where
  "processAttackWithDeltas now state =
     (let prevPlayer = player state;
          prevScore = score state;
          prevPos = prevEnemyPositions (enemies state)
      in case processAttack now state of
           None \<Rightarrow> None
         | Some (events, s1) \<Rightarrow>
             Some (events,
                   playerStatsDelta (player s1) prevPlayer
                   @ (if score s1 \<noteq> prevScore then [DScore (score s1)] else [])
                   @ concat (map (attackEnemyDeltas prevPos) (enemies s1))
                   @ (if status s1 \<noteq> Active then [DGameStatus (status s1)] else [])
                   @ map DEvent events,
                   s1))"

section \<open>Definitions used to state the properties\<close>

text \<open>
  One iteration of the level-up loop as the specification words it: subtract the old
  threshold from \<open>xp\<close>, raise the level by one, add 3 to \<open>maxHp\<close> and 1 to attack and
  defense, heal by half of the new \<open>maxHp\<close> (rounded down) without exceeding it, and set
  the threshold to fifty times the new level.
\<close>

definition levelUpStep :: "Player \<Rightarrow> Player" where
  "levelUpStep p =
     p\<lparr>p_xp := p_xp p - p_xpToNextLevel p,
       p_level := p_level p + 1,
       p_maxHp := p_maxHp p + 3,
       p_hp := min (p_maxHp p + 3) (p_hp p + (p_maxHp p + 3) div 2),
       p_attack := p_attack p + 1,
       p_defense := p_defense p + 1,
       p_xpToNextLevel := (p_level p + 1) * 50\<rparr>"


subsection \<open>Concrete states\<close>

definition noEquipment :: PlayerEquipment where
  "noEquipment = \<lparr>weapon = None, shield = None, armor = None, ranged = None\<rparr>"

definition testPlayer :: Player where
  "testPlayer = \<lparr>p_x = 5, p_y = 5, p_hp = 25, p_maxHp = 25, p_attack = 5, p_defense = 2,
     p_inventory = [], p_xp = 0, p_level = 1, p_xpToNextLevel = 10, p_equipment = noEquipment,
     p_character = Dwarf, p_facingDirection = FaceLeft\<rparr>"

definition championDragon :: Enemy where
  "championDragon = \<lparr>e_id = ''dragon-1'', e_type = Dragon, e_variant = Champion,
     e_displayName = ''Champion Dragon'', e_x = 6, e_y = 5, e_hp = 0, e_maxHp = 112,
     e_attack = 36, e_defense = 12, e_behavior = Aggressive, e_lastSeenPlayer = None\<rparr>"

definition killState :: GameState where
  "killState = \<lparr>gs_id = ''g'', playerId = ''p'', playerName = ''n'', gs_floor = 1,
     player = testPlayer, gs_map = [], enemies = [championDragon], items = [], fog = [],
     status = Active, score = 0, createdAt = 0, updatedAt = 0\<rparr>"

definition leatherArmor :: Equipment where
  "leatherArmor = mkEquipment ''leather_armor'' Armor ''Leather Armor'' 0 1 10 0 0 1"

definition rangerVest :: Equipment where
  "rangerVest = mkEquipment ''ranger_vest'' Armor ''Ranger Vest'' 0 2 5 3 2 2"

definition armoredState :: GameState where
  "armoredState = killState\<lparr>
     player := testPlayer\<lparr>p_hp := 33, p_maxHp := 35, p_defense := 3,
                 p_equipment := noEquipment\<lparr>armor := Some leatherArmor\<rparr>\<rparr>,
     items := [\<lparr>i_id = ''armor1'', i_type = EquipmentType, i_name = ''Ranger Vest'',
                i_x = 6, i_y = 5, i_value = 0, i_equipment = Some rangerVest\<rparr>]\<rparr>"

subsection \<open>Generated floors\<close>

definition validRandom :: "(nat \<Rightarrow> rat) \<Rightarrow> bool" where
  "validRandom rnd = (\<forall>k. 0 \<le> rnd k \<and> rnd k < 1)"

definition roomOk :: "Room \<Rightarrow> bool" where
  "roomOk r = (1 \<le> r_x r \<and> 4 \<le> r_width r \<and> r_x r + r_width r < MAP_WIDTH - 1
              \<and> 1 \<le> r_y r \<and> 4 \<le> r_height r \<and> r_y r + r_height r < MAP_HEIGHT - 1)"

definition mapDims :: "Tile list list \<Rightarrow> bool" where
  "mapDims m = (length m = nat MAP_HEIGHT \<and> list_all (\<lambda>row. length row = nat MAP_WIDTH) m)"

definition inMap :: "int \<times> int \<Rightarrow> bool" where
  "inMap c = (0 \<le> fst c \<and> fst c < MAP_WIDTH \<and> 0 \<le> snd c \<and> snd c < MAP_HEIGHT)"

definition passable :: "Tile list list \<Rightarrow> Coordinate \<Rightarrow> bool" where
  "passable m c = (case tileAt m (fst c) (snd c) of Some t \<Rightarrow> t_type t \<noteq> Wall | None \<Rightarrow> False)"

definition adjacent4 :: "Coordinate \<Rightarrow> Coordinate \<Rightarrow> bool" where
  "adjacent4 a b = (\<bar>fst a - fst b\<bar> + \<bar>snd a - snd b\<bar> = 1)"

definition walkable :: "Tile list list \<Rightarrow> Coordinate list \<Rightarrow> bool" where
  "walkable m p = (p \<noteq> [] \<and> list_all (passable m) p \<and> successively adjacent4 p)"

definition connected4 :: "Tile list list \<Rightarrow> Coordinate \<Rightarrow> Coordinate \<Rightarrow> bool" where
  "connected4 m a b = (\<exists>p. walkable m p \<and> hd p = a \<and> last p = b)"

definition stairsAt :: "Tile list list \<Rightarrow> Coordinate \<Rightarrow> bool" where
  "stairsAt m c = (case tileAt m (fst c) (snd c) of Some t \<Rightarrow> t_type t = Stairs | None \<Rightarrow> False)"

definition noStairs :: "Tile list list \<Rightarrow> bool" where
  "noStairs m = (\<forall>x y. \<not> stairsAt m (x, y))"

text \<open>What every carving step of the generator guarantees about the map it returns.\<close>

definition carved :: "Tile list list \<Rightarrow> Tile list list \<Rightarrow> bool" where
  "carved m m' = (mapDims m' \<and> (\<forall>c. passable m c \<longrightarrow> passable m' c) \<and> (noStairs m \<longrightarrow> noStairs m'))"

text \<open>Streams of random draws given by a finite list (zero afterwards), and rooms of size 4 by 4.\<close>

definition rndOf :: "rat list \<Rightarrow> nat \<Rightarrow> rat" where
  "rndOf xs k = (if k < length xs then xs ! k else 0)"

definition fiveRoomDraws :: "rat list" where
  "fiveRoomDraws = [0,  0, 0, 0, 0,  1 / 5, 0, 0, 0,  2 / 5, 0, 0, 0,  3 / 5, 0, 0, 0,
                    4 / 5, 0, 0, 0]"

definition noIds :: "nat \<Rightarrow> string" where
  "noIds u = ''id''"

definition room4 :: "int \<Rightarrow> int \<Rightarrow> Room" where
  "room4 x y = \<lparr>r_x = x, r_y = y, r_width = 4, r_height = 4\<rparr>"

definition zeroDraws :: "nat \<Rightarrow> rat" where
  "zeroDraws k = 0"

subsection \<open>Turns\<close>

text \<open>
  No two live enemies share a tile and no live enemy stands on the player's tile. The test
  for another live enemy is the one \<open>canMoveToTile\<close> uses.
\<close>

definition noOverlap :: "GameState \<Rightarrow> bool" where
  "noOverlap state =
     list_all (\<lambda>(i, e). e_hp e \<le> 0
                 \<or> (\<not> otherLiveEnemyAt state i (e_x e) (e_y e)
                    \<and> \<not> (e_x e = p_x (player state) \<and> e_y e = p_y (player state))))
       (enumerate 0 (enemies state))"

text \<open>
  What the enemies' turn may change: the enemies' positions and memories, the player's hit
  points and the status. \<open>enemyCore\<close> blanks the three fields of an enemy that may change.
\<close>

definition enemyCore :: "Enemy \<Rightarrow> Enemy" where
  "enemyCore e = e\<lparr>e_x := 0, e_y := 0, e_lastSeenPlayer := None\<rparr>"

definition aiFrame :: "GameState \<Rightarrow> GameState \<Rightarrow> bool" where
  "aiFrame s s' =
     (gs_id s' = gs_id s \<and> playerId s' = playerId s \<and> playerName s' = playerName s
      \<and> gs_floor s' = gs_floor s \<and> gs_map s' = gs_map s \<and> items s' = items s
      \<and> fog s' = fog s \<and> score s' = score s \<and> createdAt s' = createdAt s
      \<and> updatedAt s' = updatedAt s
      \<and> player s' = (player s)\<lparr>p_hp := p_hp (player s')\<rparr>
      \<and> map enemyCore (enemies s') = map enemyCore (enemies s))"



text \<open>
  A rectangular, non-empty map; a state whose fog has a row for every map row and whose
  player stands inside the map.
\<close>

definition rectMap :: "Tile list list \<Rightarrow> bool" where
  "rectMap m = (m \<noteq> [] \<and> list_all (\<lambda>row. length row = length (hd m)) m)"




text \<open>
  The cell a move intent aims at (\<open>newX\<close>, \<open>newY\<close> of \<open>processMove\<close>), and the bounds test
  of \<open>processMove\<close>: the width of the map is the length of its first row.
\<close>

definition moveTarget :: "GameState \<Rightarrow> Direction \<Rightarrow> int \<times> int" where
  "moveTarget state direction =
     (p_x (player state) + (if direction = DirLeft then - 1 else if direction = DirRight then 1 else 0),
      p_y (player state) + (if direction = Up then - 1 else if direction = Down then 1 else 0))"

definition outOfBounds :: "Tile list list \<Rightarrow> int \<times> int \<Rightarrow> bool" where
  "outOfBounds m c =
     (snd c < 0 \<or> int (length m) \<le> snd c \<or> fst c < 0 \<or> int (length (hd m)) \<le> fst c)"

text \<open>
  \<open>createTestMap\<close> and \<open>createTestGameState\<close> of the test helpers
  (apps/api/src/test/helpers): walls on the border, floor inside; the player at (5, 5).
\<close>

definition createTestMap :: "nat \<Rightarrow> nat \<Rightarrow> Tile list list" where
  "createTestMap width height =
     map (\<lambda>y. map (\<lambda>x. \<lparr>t_type = (if x = 0 \<or> x = width - 1 \<or> y = 0 \<or> y = height - 1
                                    then Wall else Floor),
                          t_x = int x, t_y = int y\<rparr>) [0..<width]) [0..<height]"

definition testState :: GameState where
  "testState = \<lparr>gs_id = ''game-1'', playerId = ''test-player-id'', playerName = ''Test Player'',
     gs_floor = 1, player = testPlayer, gs_map = createTestMap 40 24, enemies = [], items = [],
     fog = initializeFog, status = Active, score = 0, createdAt = 0, updatedAt = 0\<rparr>"



section \<open>The map generator\<close>

lemma randomInt_bounds:
  assumes "validRandom rnd" "lo \<le> hi"
  shows "lo \<le> randomInt rnd k lo hi \<and> randomInt rnd k lo hi \<le> hi"
proof -
  define n where "n = hi - lo + 1"
  have r: "0 \<le> rnd k" "rnd k < 1" using assms(1) by (auto simp: validRandom_def)
  have n: "0 < (of_int n :: rat)" using assms(2) by (simp add: n_def)
  have "0 \<le> rnd k * of_int n" using r n by simp
  then have a: "0 \<le> \<lfloor>rnd k * of_int n\<rfloor>" by simp
  have "rnd k * of_int n < of_int n" using r n by simp
  then have b: "\<lfloor>rnd k * of_int n\<rfloor> < n" by (simp only: floor_less_iff)
  show ?thesis using a b unfolding randomInt_def n_def[symmetric] by (simp add: n_def)
qed

lemma centerX_eq: "centerX r = r_x r + r_width r div 2"
proof -
  have "\<lfloor>(of_int (r_x r) + of_int (r_width r) / 2 :: rat)\<rfloor>
        = r_x r + \<lfloor>(of_int (r_width r) / of_int 2 :: rat)\<rfloor>"
    by (simp add: floor_add_int)
  also have "\<lfloor>(of_int (r_width r) / of_int 2 :: rat)\<rfloor> = r_width r div 2"
    by (rule floor_divide_of_int_eq)
  finally show ?thesis by (simp add: centerX_def)
qed

lemma centerY_eq: "centerY r = r_y r + r_height r div 2"
proof -
  have "\<lfloor>(of_int (r_y r) + of_int (r_height r) / 2 :: rat)\<rfloor>
        = r_y r + \<lfloor>(of_int (r_height r) / of_int 2 :: rat)\<rfloor>"
    by (simp add: floor_add_int)
  also have "\<lfloor>(of_int (r_height r) / of_int 2 :: rat)\<rfloor> = r_height r div 2"
    by (rule floor_divide_of_int_eq)
  finally show ?thesis by (simp add: centerY_def)
qed

declare placeRooms.simps [simp del]

lemma placeRooms_stop:
  "\<not> (i < 100 \<and> int (length rooms) < numRooms) \<Longrightarrow> placeRooms rnd numRooms i rooms k = (rooms, k)"
  by (subst placeRooms.simps) auto

lemma placeRooms_step:
  assumes "i < 100" "int (length rooms) < numRooms"
  shows "\<exists>rooms'. placeRooms rnd numRooms i rooms k = placeRooms rnd numRooms (Suc i) rooms' (k + 4)
           \<and> (rooms' = rooms \<or>
                rooms' = rooms @ [\<lparr>r_x = randomInt rnd k 1 (MAP_WIDTH - 10),
                    r_y = randomInt rnd (k + 1) 1 (MAP_HEIGHT - 8),
                    r_width = randomInt rnd (k + 2) 4 8,
                    r_height = randomInt rnd (k + 3) 4 6\<rparr>]
                \<and> randomInt rnd k 1 (MAP_WIDTH - 10) + randomInt rnd (k + 2) 4 8 < MAP_WIDTH - 1
                \<and> randomInt rnd (k + 1) 1 (MAP_HEIGHT - 8) + randomInt rnd (k + 3) 4 6 < MAP_HEIGHT - 1)"
  using assms by (subst placeRooms.simps) (auto simp: Let_def)

lemma placeRooms_ok:
  "validRandom rnd \<Longrightarrow> list_all roomOk rooms
   \<Longrightarrow> list_all roomOk (fst (placeRooms rnd numRooms i rooms k))"
proof (induction "100 - i" arbitrary: i rooms k)
  case 0
  then show ?case by (simp add: placeRooms_stop)
next
  case (Suc n)
  note v = Suc.prems(1)
  show ?case
  proof (cases "i < 100 \<and> int (length rooms) < numRooms")
    case False
    then show ?thesis using Suc.prems by (simp add: placeRooms_stop)
  next
    case True
    then obtain rooms' where
      eq: "placeRooms rnd numRooms i rooms k = placeRooms rnd numRooms (Suc i) rooms' (k + 4)"
      and alt: "rooms' = rooms \<or>
                rooms' = rooms @ [\<lparr>r_x = randomInt rnd k 1 (MAP_WIDTH - 10),
                    r_y = randomInt rnd (k + 1) 1 (MAP_HEIGHT - 8),
                    r_width = randomInt rnd (k + 2) 4 8,
                    r_height = randomInt rnd (k + 3) 4 6\<rparr>]
                \<and> randomInt rnd k 1 (MAP_WIDTH - 10) + randomInt rnd (k + 2) 4 8 < MAP_WIDTH - 1
                \<and> randomInt rnd (k + 1) 1 (MAP_HEIGHT - 8) + randomInt rnd (k + 3) 4 6 < MAP_HEIGHT - 1"
      using placeRooms_step[of i rooms numRooms rnd k] by blast
    have bx: "1 \<le> randomInt rnd k 1 (MAP_WIDTH - 10)"
      using randomInt_bounds[OF v, of 1 "MAP_WIDTH - 10" k] by (simp add: MAP_WIDTH_def)
    have by': "1 \<le> randomInt rnd (k + 1) 1 (MAP_HEIGHT - 8)"
      using randomInt_bounds[OF v, of 1 "MAP_HEIGHT - 8" "k+1"] by (simp add: MAP_HEIGHT_def)
    have bw: "4 \<le> randomInt rnd (k + 2) 4 8" using randomInt_bounds[OF v, of 4 8 "k+2"] by simp
    have bh: "4 \<le> randomInt rnd (k + 3) 4 6" using randomInt_bounds[OF v, of 4 6 "k+3"] by simp
    have ok': "list_all roomOk rooms'"
      using alt Suc.prems(2) bx by' bw bh by (auto simp: roomOk_def)
    have "n = 100 - Suc i" using Suc.hyps(2) by simp
    from Suc.hyps(1)[OF this v ok'] show ?thesis by (simp add: eq)
  qed
qed

lemma placeRooms_prefix:
  "prefix rooms (fst (placeRooms rnd numRooms i rooms k))"
proof (induction "100 - i" arbitrary: i rooms k)
  case 0
  then show ?case by (simp add: placeRooms_stop)
next
  case (Suc n)
  show ?case
  proof (cases "i < 100 \<and> int (length rooms) < numRooms")
    case False
    then show ?thesis by (simp add: placeRooms_stop)
  next
    case True
    then obtain rooms' where
      eq: "placeRooms rnd numRooms i rooms k = placeRooms rnd numRooms (Suc i) rooms' (k + 4)"
      and alt: "prefix rooms rooms'"
      using placeRooms_step[of i rooms numRooms rnd k] by auto
    have "n = 100 - Suc i" using Suc.hyps(2) by simp
    from Suc.hyps(1)[OF this, of rooms' "k + 4"] alt show ?thesis
      by (auto simp: eq intro: prefix_order.trans)
  qed
qed

lemma generateRooms_ok:
  assumes v: "validRandom rnd"
  shows "fst (generateRooms rnd) \<noteq> [] \<and> list_all roomOk (fst (generateRooms rnd))"
proof -
  let ?numRooms = "randomInt rnd 0 5 8"
  let ?room = "\<lparr>r_x = randomInt rnd 1 1 (MAP_WIDTH - 10),
                  r_y = randomInt rnd (1 + 1) 1 (MAP_HEIGHT - 8),
                  r_width = randomInt rnd (1 + 2) 4 8,
                  r_height = randomInt rnd (1 + 3) 4 6\<rparr>"
  have n: "5 \<le> ?numRooms" using randomInt_bounds[OF v, of 5 8 0] by simp
  have bx: "r_x ?room \<le> 30" using randomInt_bounds[OF v, of 1 "MAP_WIDTH - 10" 1]
    by (simp add: MAP_WIDTH_def)
  have by': "r_y ?room \<le> 16" using randomInt_bounds[OF v, of 1 "MAP_HEIGHT - 8" "1+1"]
    by (simp add: MAP_HEIGHT_def)
  have bw: "r_width ?room \<le> 8" using randomInt_bounds[OF v, of 4 8 "1+2"] by simp
  have bh: "r_height ?room \<le> 6" using randomInt_bounds[OF v, of 4 6 "1+3"] by simp
  have first: "placeRooms rnd ?numRooms 0 [] 1 = placeRooms rnd ?numRooms (Suc 0) ([] @ [?room]) (1 + 4)"
    using n bx by' bw bh
    by (subst placeRooms.simps) (simp add: Let_def MAP_WIDTH_def MAP_HEIGHT_def)
  have "prefix [?room] (fst (placeRooms rnd ?numRooms 0 [] 1))"
    unfolding first using placeRooms_prefix[of "[] @ [?room]" rnd ?numRooms "Suc 0" "1 + 4"] by simp
  then have ne: "fst (placeRooms rnd ?numRooms 0 [] 1) \<noteq> []" by auto
  have ok: "list_all roomOk (fst (placeRooms rnd ?numRooms 0 [] 1))"
    by (rule placeRooms_ok[OF v]) simp
  show ?thesis using ne ok by (simp add: generateRooms_def Let_def split_beta)
qed

lemma sortRooms_set [simp]: "set (sortRooms rooms) = set rooms"
  by (simp add: sortRooms_def)

lemma sortRooms_length [simp]: "length (sortRooms rooms) = length rooms"
  by (simp add: sortRooms_def)

lemma sortRooms_Nil [simp]: "sortRooms rooms = [] \<longleftrightarrow> rooms = []"
  by (metis length_0_conv sortRooms_length)

lemma mapDims_row: "mapDims m \<Longrightarrow> 0 \<le> y \<Longrightarrow> y < MAP_HEIGHT \<Longrightarrow> length (m ! nat y) = nat MAP_WIDTH"
  by (auto simp: mapDims_def list_all_length)

lemma tileAt_inMap:
  "mapDims m \<Longrightarrow> tileAt m x y = (if inMap (x, y) then Some (m ! nat y ! nat x) else None)"
  using mapDims_row[of m y]
  by (auto simp: tileAt_def inMap_def mapDims_def Let_def MAP_HEIGHT_def MAP_WIDTH_def)

lemma mapDims_wallMap: "mapDims wallMap"
  by (simp add: mapDims_def wallMap_def list_all_iff MAP_HEIGHT_def MAP_WIDTH_def)

lemma tileAt_wallMap:
  "tileAt wallMap x y = (if inMap (x, y) then Some \<lparr>t_type = Wall, t_x = x, t_y = y\<rparr> else None)"
  unfolding tileAt_inMap[OF mapDims_wallMap]
  by (auto simp: wallMap_def inMap_def MAP_HEIGHT_def MAP_WIDTH_def)

lemma setTile_ok:
  assumes "mapDims m" "inMap (x, y)"
  shows "\<exists>m'. setTile m x y t = Some m' \<and> mapDims m'
           \<and> (\<forall>x' y'. tileAt m' x' y' = (if x' = x \<and> y' = y then Some t else tileAt m x' y'))"
proof -
  let ?m' = "m[nat y := (m ! nat y)[nat x := t]]"
  have row: "length (m ! nat y) = nat MAP_WIDTH"
    using assms mapDims_row[of m y] by (simp add: inMap_def)
  have len: "length m = nat MAP_HEIGHT" using assms(1) by (simp add: mapDims_def)
  have s: "setTile m x y t = Some ?m'"
    using assms row len by (simp add: setTile_def inMap_def)
  have d: "mapDims ?m'"
    using assms row len
    by (auto simp: mapDims_def list_all_length nth_list_update inMap_def)
  have t: "tileAt ?m' x' y' = (if x' = x \<and> y' = y then Some t else tileAt m x' y')" for x' y'
    using assms(2) row len
    by (auto simp: tileAt_inMap[OF d] tileAt_inMap[OF assms(1)] inMap_def nth_list_update
          MAP_HEIGHT_def MAP_WIDTH_def nat_eq_iff)
  show ?thesis using s d t by blast
qed

lemma carveCells_ok:
  "mapDims m \<Longrightarrow> list_all inMap cs \<Longrightarrow>
   \<exists>m'. carveCells m cs = Some m' \<and> mapDims m'
      \<and> (\<forall>x y. tileAt m' x y =
            (if (x, y) \<in> set cs then Some \<lparr>t_type = Floor, t_x = x, t_y = y\<rparr> else tileAt m x y))"
proof (induction cs arbitrary: m)
  case Nil
  then show ?case by simp
next
  case (Cons c cs)
  obtain cx cy where c: "c = (cx, cy)" by (cases c)
  from Cons.prems have "inMap (cx, cy)" "list_all inMap cs" by (auto simp: c)
  from setTile_ok[OF Cons.prems(1) this(1), of "\<lparr>t_type = Floor, t_x = cx, t_y = cy\<rparr>"]
  obtain m1 where m1: "setTile m cx cy \<lparr>t_type = Floor, t_x = cx, t_y = cy\<rparr> = Some m1"
      "mapDims m1"
      "\<And>x' y'. tileAt m1 x' y' =
         (if x' = cx \<and> y' = cy then Some \<lparr>t_type = Floor, t_x = cx, t_y = cy\<rparr> else tileAt m x' y')"
    by blast
  from Cons.IH[OF m1(2) \<open>list_all inMap cs\<close>]
  obtain m' where m': "carveCells m1 cs = Some m'" "mapDims m'"
      "\<And>x y. tileAt m' x y =
            (if (x, y) \<in> set cs then Some \<lparr>t_type = Floor, t_x = x, t_y = y\<rparr> else tileAt m1 x y)"
    by blast
  have "carveCells m (c # cs) = Some m'" using m1(1) m'(1) by (simp add: c)
  moreover have "tileAt m' x y =
      (if (x, y) \<in> set (c # cs) then Some \<lparr>t_type = Floor, t_x = x, t_y = y\<rparr> else tileAt m x y)"
    for x y
    using m'(3)[of x y] m1(3)[of x y] by (auto simp: c)
  ultimately show ?case using m'(2) by blast
qed

subsection \<open>Connectivity\<close>

lemma connected4_refl: "passable m a \<Longrightarrow> connected4 m a a"
  unfolding connected4_def walkable_def by (rule exI[of _ "[a]"]) simp

lemma adjacent4_sym: "adjacent4 a b = adjacent4 b a"
  by (auto simp: adjacent4_def)

lemma connected4_sym: "connected4 m a b \<Longrightarrow> connected4 m b a"
proof -
  assume "connected4 m a b"
  then obtain p where p: "walkable m p" "hd p = a" "last p = b"
    by (auto simp: connected4_def)
  have "successively (\<lambda>x y. adjacent4 y x) p = successively adjacent4 p"
    by (rule successively_cong) (auto simp: adjacent4_sym)
  then have "walkable m (rev p)" using p(1) by (simp add: walkable_def)
  moreover have "hd (rev p) = b" "last (rev p) = a"
    using p by (auto simp: walkable_def hd_rev last_rev)
  ultimately show ?thesis unfolding connected4_def by blast
qed

lemma connected4_trans:
  assumes "connected4 m a b" "connected4 m b c"
  shows "connected4 m a c"
proof -
  from assms obtain p q where p: "walkable m p" "hd p = a" "last p = b"
    and q: "walkable m q" "hd q = b" "last q = c"
    by (auto simp: connected4_def)
  from q obtain q' where q': "q = b # q'" by (cases q) (auto simp: walkable_def)
  have sq: "successively adjacent4 q'" "q' \<noteq> [] \<Longrightarrow> adjacent4 b (hd q')"
    using q(1) unfolding q' walkable_def by (cases q'; simp)+
  have "walkable m (p @ q')"
    using p q(1) sq unfolding walkable_def q'
    by (auto simp: successively_append_iff)
  moreover have "hd (p @ q') = a" using p by (simp add: walkable_def)
  moreover have "last (p @ q') = c" using p q(3) by (cases "q' = []") (auto simp: q')
  ultimately show ?thesis unfolding connected4_def by blast
qed

lemma connected4_hseg:
  assumes "a \<le> b" "\<forall>x. a \<le> x \<and> x \<le> b \<longrightarrow> passable m (x, y)"
  shows "connected4 m (a, y) (b, y)"
proof -
  let ?p = "map (\<lambda>x. (x, y)) [a..b]"
  have ne: "[a..b] \<noteq> []" using assms(1) by simp
  have "walkable m ?p"
    using assms ne
    by (auto simp: walkable_def list_all_iff successively_conv_nth adjacent4_def)
  moreover have "hd ?p = (a, y)" using assms(1) by (simp add: hd_map upto_rec1)
  moreover have "last ?p = (b, y)" using assms(1) by (simp add: last_map upto_rec2)
  ultimately show ?thesis unfolding connected4_def by blast
qed

lemma connected4_vseg:
  assumes "a \<le> b" "\<forall>y. a \<le> y \<and> y \<le> b \<longrightarrow> passable m (x, y)"
  shows "connected4 m (x, a) (x, b)"
proof -
  let ?p = "map (\<lambda>y. (x, y)) [a..b]"
  have ne: "[a..b] \<noteq> []" using assms(1) by simp
  have "walkable m ?p"
    using assms ne
    by (auto simp: walkable_def list_all_iff successively_conv_nth adjacent4_def)
  moreover have "hd ?p = (x, a)" using assms(1) by (simp add: hd_map upto_rec1)
  moreover have "last ?p = (x, b)" using assms(1) by (simp add: last_map upto_rec2)
  ultimately show ?thesis unfolding connected4_def by blast
qed

lemma connected4_corridor:
  assumes "\<forall>x. min x1 x2 \<le> x \<and> x \<le> max x1 x2 \<longrightarrow> passable m (x, y1)"
      and "\<forall>y. min y1 y2 \<le> y \<and> y \<le> max y1 y2 \<longrightarrow> passable m (x2, y)"
  shows "connected4 m (x1, y1) (x2, y2)"
proof -
  have h: "connected4 m (min x1 x2, y1) (max x1 x2, y1)"
    by (rule connected4_hseg) (use assms(1) in auto)
  have h': "connected4 m (x1, y1) (x2, y1)"
  proof (cases "x1 \<le> x2")
    case True then show ?thesis using h by (simp add: min_def max_def)
  next
    case False then show ?thesis using connected4_sym[OF h] by (simp add: min_def max_def)
  qed
  have v: "connected4 m (x2, min y1 y2) (x2, max y1 y2)"
    by (rule connected4_vseg) (use assms(2) in auto)
  have v': "connected4 m (x2, y1) (x2, y2)"
  proof (cases "y1 \<le> y2")
    case True then show ?thesis using v by (simp add: min_def max_def)
  next
    case False then show ?thesis using connected4_sym[OF v] by (simp add: min_def max_def)
  qed
  show ?thesis by (rule connected4_trans[OF h' v'])
qed

lemma carved_trans: "carved m m1 \<Longrightarrow> carved m1 m2 \<Longrightarrow> carved m m2"
  by (auto simp: carved_def)

lemma carved_refl: "mapDims m \<Longrightarrow> carved m m"
  by (auto simp: carved_def)

lemma carveCells_carved:
  assumes "mapDims m" "list_all inMap cs"
  shows "\<exists>m'. carveCells m cs = Some m' \<and> carved m m' \<and> (\<forall>c\<in>set cs. passable m' c)"
proof -
  from carveCells_ok[OF assms] obtain m' where m': "carveCells m cs = Some m'" "mapDims m'"
    "\<And>x y. tileAt m' x y =
        (if (x, y) \<in> set cs then Some \<lparr>t_type = Floor, t_x = x, t_y = y\<rparr> else tileAt m x y)"
    by blast
  have "carved m m'"
    using m'(2) by (auto simp: carved_def passable_def noStairs_def stairsAt_def m'(3))
  moreover have "\<forall>c\<in>set cs. passable m' c"
    by (auto simp: passable_def m'(3))
  ultimately show ?thesis using m'(1) by blast
qed

lemma roomCells_inMap: "roomOk r \<Longrightarrow> list_all inMap (roomCells r)"
  by (auto simp: roomOk_def roomCells_def list_all_iff inMap_def MAP_WIDTH_def MAP_HEIGHT_def)

lemma center_inMap: "roomOk r \<Longrightarrow> inMap (centerX r, centerY r)"
  by (auto simp: roomOk_def inMap_def centerX_eq centerY_eq MAP_WIDTH_def MAP_HEIGHT_def)

lemma carveRooms_carved:
  "mapDims m \<Longrightarrow> list_all roomOk rooms \<Longrightarrow> \<exists>m'. carveRooms m rooms = Some m' \<and> carved m m'"
proof (induction rooms arbitrary: m)
  case Nil
  then show ?case by (simp add: carved_refl)
next
  case (Cons r rooms)
  from Cons.prems have r: "roomOk r" and rs: "list_all roomOk rooms" by auto
  from carveCells_carved[OF Cons.prems(1) roomCells_inMap[OF r]]
  obtain m1 where m1: "carveCells m (roomCells r) = Some m1" "carved m m1" by blast
  from Cons.IH[OF _ rs, of m1] m1(2)
  obtain m' where m': "carveRooms m1 rooms = Some m'" "carved m1 m'" by (auto simp: carved_def)
  show ?case using m1 m' carved_trans by auto
qed

lemma carveCorridor_carved:
  assumes "mapDims m" "inMap (x1, y1)" "inMap (x2, y2)"
  shows "\<exists>m'. carveCorridor m x1 y1 x2 y2 = Some m' \<and> carved m m' \<and> connected4 m' (x1, y1) (x2, y2)"
proof -
  let ?cs = "map (\<lambda>x. (x, y1)) [min x1 x2..max x1 x2] @ map (\<lambda>y. (x2, y)) [min y1 y2..max y1 y2]"
  have "list_all inMap ?cs"
    using assms(2,3) by (auto simp: list_all_iff inMap_def)
  from carveCells_carved[OF assms(1) this]
  obtain m' where m': "carveCells m ?cs = Some m'" "carved m m'" "\<forall>c\<in>set ?cs. passable m' c"
    by blast
  have "connected4 m' (x1, y1) (x2, y2)"
    by (rule connected4_corridor) (use m'(3) in auto)
  then show ?thesis using m' by (simp add: carveCorridor_def)
qed

lemma connectRooms_carved:
  "mapDims m \<Longrightarrow> list_all roomOk rooms \<Longrightarrow> \<exists>m'. connectRooms m rooms = Some m' \<and> carved m m'"
proof (induction m rooms rule: connectRooms.induct)
  case (1 m prevRoom currRoom rest)
  from "1.prems" have a: "roomOk prevRoom" "roomOk currRoom" "list_all roomOk (currRoom # rest)"
    by auto
  from carveCorridor_carved[OF "1.prems"(1) center_inMap[OF a(1)] center_inMap[OF a(2)]]
  obtain m1 where m1: "carveCorridor m (centerX prevRoom) (centerY prevRoom)
                          (centerX currRoom) (centerY currRoom) = Some m1" "carved m m1"
    by blast
  from "1.IH"[OF m1(1) _ a(3)] m1(2)
  obtain m' where "connectRooms m1 (currRoom # rest) = Some m'" "carved m1 m'"
    by (auto simp: carved_def)
  then show ?case using m1 carved_trans by auto
qed (simp_all add: carved_refl)

lemma noStairs_wallMap: "noStairs wallMap"
  by (simp add: noStairs_def stairsAt_def tileAt_wallMap)

text \<open>The map of a floor, for rooms that lie inside the border.\<close>

lemma generateTiles_ok:
  assumes ne: "rooms0 \<noteq> []" and ok: "list_all roomOk rooms0"
  defines "rooms \<equiv> sortRooms rooms0"
  defines "start \<equiv> (centerX (hd rooms), centerY (hd rooms))"
  defines "stairs \<equiv> (centerX (last rooms), centerY (last rooms))"
  shows "\<exists>tiles. generateTiles rooms0 = Some tiles \<and> mapDims tiles
           \<and> stairsAt tiles stairs
           \<and> (\<forall>c. stairsAt tiles c \<longrightarrow> c = stairs)
           \<and> connected4 tiles start stairs"
proof -
  have "length rooms = length rooms0" by (simp add: rooms_def)
  then have rne: "rooms \<noteq> []" using ne by auto
  have rok: "list_all roomOk rooms" using ok by (simp add: rooms_def list_all_iff)
  have hd_ok: "roomOk (hd rooms)" and last_ok: "roomOk (last rooms)"
    using rne rok by (auto simp: list_all_iff)
  from carveRooms_carved[OF mapDims_wallMap ok]
  obtain t1 where t1: "carveRooms wallMap rooms0 = Some t1" "carved wallMap t1" by blast
  have d1: "mapDims t1" using t1(2) by (simp add: carved_def)
  from connectRooms_carved[OF d1 rok]
  obtain t2 where t2: "connectRooms t1 rooms = Some t2" "carved t1 t2" by blast
  have d2: "mapDims t2" using t2(2) by (simp add: carved_def)
  have "\<exists>t3. (if length rooms \<ge> 2 then
                 carveCorridor t2 (centerX (hd rooms)) (centerY (hd rooms))
                   (centerX (last rooms)) (centerY (last rooms))
               else Some t2) = Some t3 \<and> carved t2 t3 \<and> (length rooms \<ge> 2 \<longrightarrow> connected4 t3 start stairs)"
  proof (cases "length rooms \<ge> 2")
    case True
    then show ?thesis
      using carveCorridor_carved[OF d2 center_inMap[OF hd_ok] center_inMap[OF last_ok]]
      by (simp add: start_def stairs_def)
  next
    case False
    then show ?thesis using carved_refl[OF d2] by simp
  qed
  then obtain t3 where t3: "(if length rooms \<ge> 2 then
                 carveCorridor t2 (centerX (hd rooms)) (centerY (hd rooms))
                   (centerX (last rooms)) (centerY (last rooms))
               else Some t2) = Some t3" "carved t2 t3"
       "length rooms \<ge> 2 \<longrightarrow> connected4 t3 start stairs"
    by blast
  have c3: "carved wallMap t3" using t1(2) t2(2) t3(2) carved_trans by blast
  have d3: "mapDims t3" and ns3: "noStairs t3"
    using c3 noStairs_wallMap by (auto simp: carved_def)
  let ?st = "\<lparr>t_type = Stairs, t_x = fst stairs, t_y = snd stairs\<rparr>"
  have sin: "inMap (fst stairs, snd stairs)" using center_inMap[OF last_ok] by (simp add: stairs_def)
  from setTile_ok[OF d3 sin, of ?st]
  obtain tiles where tiles: "setTile t3 (fst stairs) (snd stairs) ?st = Some tiles" "mapDims tiles"
     "\<And>x' y'. tileAt tiles x' y' =
        (if x' = fst stairs \<and> y' = snd stairs then Some ?st else tileAt t3 x' y')"
    by blast
  have lc: "(case rooms of [] \<Rightarrow> a | x # xs \<Rightarrow> b) = b" for a b :: "Tile list list option"
    using rne by (cases rooms) auto
  have gen: "generateTiles rooms0 = Some tiles"
    unfolding generateTiles_def rooms_def[symmetric] Let_def
    by (simp only: t1(1) t2(1) t3(1) option.case lc) (use tiles(1) in \<open>simp add: stairs_def\<close>)
  have sa: "stairsAt tiles stairs" by (simp add: stairsAt_def tiles(3))
  have uniq: "stairsAt tiles c \<Longrightarrow> c = stairs" for c
    using ns3 by (cases c; cases stairs) (auto simp: stairsAt_def tiles(3) noStairs_def split: if_splits)
  have pres: "passable t3 c \<Longrightarrow> passable tiles c" for c
    by (auto simp: passable_def tiles(3))
  have ps: "passable tiles stairs" by (simp add: passable_def tiles(3))
  have conn: "connected4 tiles start stairs"
  proof (cases "length rooms \<ge> 2")
    case True
    with t3(3) obtain p where p: "walkable t3 p" "hd p = start" "last p = stairs"
      by (auto simp: connected4_def)
    then have "walkable tiles p" using pres by (auto simp: walkable_def list_all_iff)
    then show ?thesis using p unfolding connected4_def by blast
  next
    case False
    then have "hd rooms = last rooms" using rne by (cases rooms) (auto simp: not_le)
    then have "start = stairs" by (simp add: start_def stairs_def)
    then show ?thesis using connected4_refl[OF ps] by simp
  qed
  show ?thesis using gen tiles(2) sa uniq conn by blast
qed

lemma nthOpt_randomInt:
  assumes "validRandom rnd" "lo \<ge> 0" "lo < int (length xs)"
  shows "\<exists>v. nthOpt xs (randomInt rnd k lo (int (length xs) - 1)) = Some v \<and> v \<in> set xs"
proof -
  have "lo \<le> int (length xs) - 1" using assms(3) by simp
  from randomInt_bounds[OF assms(1) this, of k] assms(2)
  show ?thesis by (auto simp: nthOpt_def)
qed

lemma spawnEnemies_total:
  "validRandom rnd \<Longrightarrow> availableTypes \<noteq> [] \<Longrightarrow>
   \<exists>r. spawnEnemies rnd uuid rooms availableTypes fl n k u acc = Some r"
proof (induction n arbitrary: k u acc)
  case 0
  then show ?case by simp
next
  case (Suc n)
  show ?case
  proof (cases "length rooms > 1")
    case False
    then show ?thesis by simp
  next
    case True
    from nthOpt_randomInt[OF Suc.prems(1), of 1 rooms k] True
    obtain room where room: "nthOpt rooms (randomInt rnd k 1 (int (length rooms) - 1)) = Some room"
      by auto
    from nthOpt_randomInt[OF Suc.prems(1), of 0 availableTypes "k + 3"] Suc.prems(2)
    obtain ty where ty: "nthOpt availableTypes
        (randomInt rnd (k + 3) 0 (int (length availableTypes) - 1)) = Some ty"
      by auto
    show ?thesis
      using True room ty Suc.IH[OF Suc.prems]
      by (simp add: Let_def split_beta)
  qed
qed

lemma spawnPotions_total:
  "validRandom rnd \<Longrightarrow> rooms \<noteq> [] \<Longrightarrow> \<exists>r. spawnPotions rnd uuid rooms n k u acc = Some r"
proof (induction n arbitrary: k u acc)
  case 0
  then show ?case by simp
next
  case (Suc n)
  from nthOpt_randomInt[OF Suc.prems(1), of 0 rooms k] Suc.prems(2)
  obtain room where room: "nthOpt rooms (randomInt rnd k 0 (int (length rooms) - 1)) = Some room"
    by auto
  show ?case using room Suc.IH[OF Suc.prems] by (simp add: Let_def)
qed

lemma spawnEquipment_total:
  "validRandom rnd \<Longrightarrow> rooms \<noteq> [] \<Longrightarrow>
   \<exists>r. spawnEquipment rnd uuid rooms availableEquipment n k u acc = Some r"
proof (induction n arbitrary: k u acc)
  case 0
  then show ?case by simp
next
  case (Suc n)
  show ?case
  proof (cases "length availableEquipment > 0")
    case False
    then show ?thesis by simp
  next
    case True
    from nthOpt_randomInt[OF Suc.prems(1), of 0 rooms k] Suc.prems(2)
    obtain room where room: "nthOpt rooms (randomInt rnd k 0 (int (length rooms) - 1)) = Some room"
      by auto
    from nthOpt_randomInt[OF Suc.prems(1), of 0 availableEquipment "k + 3"] True
    obtain e where e: "nthOpt availableEquipment
        (randomInt rnd (k + 3) 0 (int (length availableEquipment) - 1)) = Some e"
      by auto
    show ?thesis using True room e Suc.IH[OF Suc.prems] by (simp add: Let_def)
  qed
qed

lemma availableTypes_nonempty: "1 \<le> fl \<Longrightarrow> slice0 ENEMY_TYPES (min (1 + fl div 3) 4) \<noteq> []"
  by (auto simp: slice0_def ENEMY_TYPES_def min_def)

text \<open>
  \<open>generateMap\<close> returns for every stream of draws in \<open>[0, 1)\<close> and every floor number from
  1 on; its map comes from \<open>generateTiles\<close> on the rooms placed, and the start is the centre
  of the first room in sorted order.
\<close>

lemma generateMap_total:
  assumes v: "validRandom rnd" and fl: "1 \<le> fl"
  shows "\<exists>g tiles. generateMap rnd uuid fl character = Some g
           \<and> generateTiles (fst (generateRooms rnd)) = Some tiles
           \<and> mr_map g = tiles
           \<and> playerStart g = (centerX (hd (sortRooms (fst (generateRooms rnd)))),
                              centerY (hd (sortRooms (fst (generateRooms rnd)))))"
proof -
  obtain rooms0 k1 where gr: "generateRooms rnd = (rooms0, k1)" by (cases "generateRooms rnd")
  from generateRooms_ok[OF v] gr have ne: "rooms0 \<noteq> []" and ok: "list_all roomOk rooms0" by auto
  from generateTiles_ok[OF ne ok] obtain tiles where tiles: "generateTiles rooms0 = Some tiles"
    by blast
  let ?rooms = "sortRooms rooms0"
  have rne: "?rooms \<noteq> []" using ne by simp
  let ?avail = "slice0 ENEMY_TYPES (min (1 + fl div 3) 4)"
  from spawnEnemies_total[OF v availableTypes_nonempty[OF fl]]
  obtain es k2 u2 where es: "spawnEnemies rnd uuid ?rooms ?avail fl
       (nat (randomInt rnd k1 3 5 + fl div 2)) (Suc k1) 0 [] = Some (es, k2, u2)"
    by (metis prod_cases3)
  from spawnPotions_total[OF v rne]
  obtain ps k3 u3 where ps: "spawnPotions rnd uuid ?rooms (nat (randomInt rnd k2 1 3)) (Suc k2) u2 []
       = Some (ps, k3, u3)"
    by (metis prod_cases3)
  from spawnEquipment_total[OF v rne]
  obtain its k4 u4 where its: "spawnEquipment rnd uuid ?rooms
       (filter (equipmentForCharacter character) (getEquipmentForFloor fl))
       (nat (randomInt rnd k3 1 2)) (Suc k3) u3 ps = Some (its, k4, u4)"
    by (metis prod_cases3)
  show ?thesis
    using gr tiles es ps its by (simp add: generateMap_def Let_def)
qed

subsection \<open>Two concrete runs of the room placement\<close>

lemma validRandom_rndOf: "list_all (\<lambda>r. 0 \<le> r \<and> r < 1) xs \<Longrightarrow> validRandom (rndOf xs)"
  by (auto simp: validRandom_def rndOf_def list_all_length)

lemma validRandom_five: "validRandom (rndOf fiveRoomDraws)"
  by (rule validRandom_rndOf) (simp add: fiveRoomDraws_def)

lemma validRandom_zero: "validRandom (\<lambda>k. 0)"
  by (simp add: validRandom_def)

lemma generateRooms_five:
  "generateRooms (rndOf fiveRoomDraws) =
     ([room4 1 1, room4 7 1, room4 13 1, room4 19 1, room4 25 1], 21)"
  by code_simp

lemma sortRooms_five:
  "sortRooms [room4 1 1, room4 7 1, room4 13 1, room4 19 1, room4 25 1]
   = [room4 1 1, room4 7 1, room4 13 1, room4 19 1, room4 25 1]"
  by code_simp

lemma placeRooms_zero:
  "i \<le> 100 \<Longrightarrow> placeRooms (\<lambda>k. 0) 5 i [room4 1 1] k = ([room4 1 1], k + 4 * (100 - i))"
proof (induction "100 - i" arbitrary: i k)
  case 0
  then show ?case by (simp add: placeRooms_stop)
next
  case (Suc n)
  then have i: "i < 100" by simp
  have "placeRooms (\<lambda>k. 0) 5 i [room4 1 1] k = placeRooms (\<lambda>k. 0) 5 (Suc i) [room4 1 1] (k + 4)"
    using i
    by (subst placeRooms.simps)
       (simp add: randomInt_def room4_def roomsOverlap_def MAP_WIDTH_def MAP_HEIGHT_def Let_def)
  also have "\<dots> = ([room4 1 1], (k + 4) + 4 * (100 - Suc i))"
    by (rule Suc.hyps(1)) (use Suc.hyps(2) i in auto)
  finally show ?case using i by simp
qed

lemma generateRooms_zero: "generateRooms (\<lambda>k. 0) = ([room4 1 1], 401)"
proof -
  have "placeRooms (\<lambda>k. 0) 5 0 [] 1 = placeRooms (\<lambda>k. 0) 5 (Suc 0) [room4 1 1] 5"
    by (subst placeRooms.simps)
       (simp add: randomInt_def room4_def roomsOverlap_def MAP_WIDTH_def MAP_HEIGHT_def Let_def)
  also have "\<dots> = ([room4 1 1], 5 + 4 * (100 - Suc 0))"
    by (rule placeRooms_zero) simp
  finally show ?thesis by (simp add: generateRooms_def randomInt_def Let_def)
qed

subsection \<open>Reachability of the stairs\<close>

text \<open>
  C3. For every stream of random draws in \<open>[0, 1)\<close> and every floor number from 1 on, the
  generator returns a floor; its map has exactly one stairs cell, and a 4-connected path
  over non-wall tiles leads from \<open>playerStart\<close> to that cell.
\<close>

theorem generateMap_start_reaches_stairs:
  assumes "validRandom rnd" and "1 \<le> fl"
  shows "\<exists>g stairs. generateMap rnd uuid fl character = Some g
           \<and> stairsAt (mr_map g) stairs
           \<and> (\<forall>c. stairsAt (mr_map g) c \<longrightarrow> c = stairs)
           \<and> connected4 (mr_map g) (playerStart g) stairs"
proof -
  let ?rooms = "sortRooms (fst (generateRooms rnd))"
  let ?start = "(centerX (hd ?rooms), centerY (hd ?rooms))"
  let ?stairs = "(centerX (last ?rooms), centerY (last ?rooms))"
  from generateMap_total[OF assms, of uuid character]
  obtain g tiles where g: "generateMap rnd uuid fl character = Some g"
      "generateTiles (fst (generateRooms rnd)) = Some tiles" "mr_map g = tiles"
      "playerStart g = ?start"
    by blast
  from generateRooms_ok[OF assms(1)]
  have ne: "fst (generateRooms rnd) \<noteq> []" and ok: "list_all roomOk (fst (generateRooms rnd))"
    by auto
  from generateTiles_ok[OF ne ok] obtain tiles' where t:
      "generateTiles (fst (generateRooms rnd)) = Some tiles'"
      "stairsAt tiles' ?stairs" "\<forall>c. stairsAt tiles' c \<longrightarrow> c = ?stairs"
      "connected4 tiles' ?start ?stairs"
    by blast
  have eq: "tiles' = mr_map g" using t(1) g(2,3) by simp
  show ?thesis
  proof (intro exI conjI)
    show "generateMap rnd uuid fl character = Some g" by (rule g(1))
    show "stairsAt (mr_map g) ?stairs" using t(2) by (simp only: eq)
    show "\<forall>c. stairsAt (mr_map g) c \<longrightarrow> c = ?stairs" using t(3) by (simp only: eq)
    show "connected4 (mr_map g) (playerStart g) ?stairs" using t(4) by (simp only: eq g(4))
  qed
qed

theorem generateMap_start_reaches_stairs_witness:
  "generateMap (rndOf fiveRoomDraws) noIds 2 Dwarf \<noteq> None
   \<and> playerStart (the (generateMap (rndOf fiveRoomDraws) noIds 2 Dwarf)) = (3, 3)
   \<and> stairsAt (mr_map (the (generateMap (rndOf fiveRoomDraws) noIds 2 Dwarf))) (27, 3)
   \<and> connected4 (mr_map (the (generateMap (rndOf fiveRoomDraws) noIds 2 Dwarf))) (3, 3) (27, 3)"
proof -
  let ?rooms = "[room4 1 1, room4 7 1, room4 13 1, room4 19 1, room4 25 1]"
  have two: "(1::int) \<le> 2" by simp
  from generateMap_start_reaches_stairs[OF validRandom_five two, of noIds Dwarf]
  obtain g stairs where g: "generateMap (rndOf fiveRoomDraws) noIds 2 Dwarf = Some g"
      "stairsAt (mr_map g) stairs" "\<forall>c. stairsAt (mr_map g) c \<longrightarrow> c = stairs"
      "connected4 (mr_map g) (playerStart g) stairs"
    by blast
  from generateMap_total[OF validRandom_five two, of noIds Dwarf]
  obtain g' tiles where g': "generateMap (rndOf fiveRoomDraws) noIds 2 Dwarf = Some g'"
      "generateTiles (fst (generateRooms (rndOf fiveRoomDraws))) = Some tiles" "mr_map g' = tiles"
      "playerStart g' = (centerX (hd (sortRooms (fst (generateRooms (rndOf fiveRoomDraws))))),
                         centerY (hd (sortRooms (fst (generateRooms (rndOf fiveRoomDraws))))))"
    by blast
  have gg: "g' = g" using g(1) g'(1) by simp
  have srt: "sortRooms (fst (generateRooms (rndOf fiveRoomDraws))) = ?rooms"
    by (simp only: generateRooms_five fst_conv sortRooms_five)
  have start: "playerStart g = (3, 3)"
    using g'(4) unfolding gg srt by (simp add: room4_def centerX_eq centerY_eq)
  have ne: "fst (generateRooms (rndOf fiveRoomDraws)) \<noteq> []"
    by (simp only: generateRooms_five fst_conv) simp
  have ok: "list_all roomOk (fst (generateRooms (rndOf fiveRoomDraws)))"
    by (simp only: generateRooms_five fst_conv)
       (simp add: roomOk_def room4_def MAP_WIDTH_def MAP_HEIGHT_def)
  from generateTiles_ok[OF ne ok] obtain tiles' where t:
      "generateTiles (fst (generateRooms (rndOf fiveRoomDraws))) = Some tiles'"
      "stairsAt tiles' (centerX (last (sortRooms (fst (generateRooms (rndOf fiveRoomDraws))))),
                        centerY (last (sortRooms (fst (generateRooms (rndOf fiveRoomDraws))))))"
    by blast
  have "tiles' = mr_map g" using t(1) g'(2,3) gg by simp
  then have "stairsAt (mr_map g) (27, 3)"
    using t(2) unfolding srt by (simp add: room4_def centerX_eq centerY_eq)
  with g(3) have "stairs = (27, 3)" by blast
  with g(1,2,4) start show ?thesis by simp
qed

subsection \<open>Rooms, start and stairs\<close>

lemma zeroDraws_eq: "zeroDraws = (\<lambda>k. 0)"
  by (rule ext) (simp add: zeroDraws_def)

lemma validRandom_zeroDraws: "validRandom zeroDraws"
  by (simp add: validRandom_def zeroDraws_def)

lemma generateMap_endpoints:
  assumes v: "validRandom rnd" and fl: "1 \<le> fl"
  shows "\<exists>g. generateMap rnd uuid fl character = Some g
           \<and> playerStart g = (centerX (hd (sortRooms (fst (generateRooms rnd)))),
                              centerY (hd (sortRooms (fst (generateRooms rnd)))))
           \<and> stairsAt (mr_map g) (centerX (last (sortRooms (fst (generateRooms rnd)))),
                                  centerY (last (sortRooms (fst (generateRooms rnd)))))"
proof -
  from generateMap_total[OF assms, of uuid character]
  obtain g tiles where g: "generateMap rnd uuid fl character = Some g"
      "generateTiles (fst (generateRooms rnd)) = Some tiles" "mr_map g = tiles"
      "playerStart g = (centerX (hd (sortRooms (fst (generateRooms rnd)))),
                        centerY (hd (sortRooms (fst (generateRooms rnd)))))"
    by blast
  from generateRooms_ok[OF v]
  have ne: "fst (generateRooms rnd) \<noteq> []" and ok: "list_all roomOk (fst (generateRooms rnd))"
    by auto
  from generateTiles_ok[OF ne ok] obtain tiles' where t:
      "generateTiles (fst (generateRooms rnd)) = Some tiles'"
      "stairsAt tiles' (centerX (last (sortRooms (fst (generateRooms rnd)))),
                        centerY (last (sortRooms (fst (generateRooms rnd)))))"
    by blast
  have eq: "tiles' = mr_map g" using t(1) g(2,3) by simp
  show ?thesis
  proof (intro exI conjI)
    show "generateMap rnd uuid fl character = Some g" by (rule g(1))
    show "playerStart g = (centerX (hd (sortRooms (fst (generateRooms rnd)))),
                           centerY (hd (sortRooms (fst (generateRooms rnd)))))" by (rule g(4))
    show "stairsAt (mr_map g) (centerX (last (sortRooms (fst (generateRooms rnd)))),
                               centerY (last (sortRooms (fst (generateRooms rnd)))))"
      using t(2) by (simp only: eq)
  qed
qed

lemma spawnEnemies_few_rooms:
  "length rooms \<le> 1 \<Longrightarrow> spawnEnemies rnd uuid rooms availableTypes fl n k u acc = Some (acc, k, u)"
  by (cases n) simp_all

lemma generateMap_few_rooms_no_enemies:
  assumes "length (fst (generateRooms rnd)) \<le> 1" and "generateMap rnd uuid fl character = Some g"
  shows "mr_enemies g = []"
proof -
  obtain rooms0 k1 where gr: "generateRooms rnd = (rooms0, k1)" by (cases "generateRooms rnd")
  have len: "length (sortRooms rooms0) \<le> 1" using assms(1) gr by simp
  show ?thesis
    using assms(2)
    by (auto simp: generateMap_def gr Let_def spawnEnemies_few_rooms[OF len]
             split: option.splits prod.splits)
qed

text \<open>
  C9, the generator at the draws that are all 0. Every candidate room after the first is
  the same room again and overlaps it, so after the 100 attempts a single room is placed.
  The generator contains no assertion on the number of rooms and does not restart: it
  returns a floor. On that floor \<open>playerStart\<close> and the stairs are both assigned from the one
  room, the stairs tile lies on \<open>playerStart\<close> at (3, 3), and no enemy is spawned.
\<close>

theorem generateMap_single_room:
  "length (fst (generateRooms zeroDraws)) = 1
   \<and> generateMap zeroDraws noIds 1 Dwarf \<noteq> None
   \<and> playerStart (the (generateMap zeroDraws noIds 1 Dwarf)) = (3, 3)
   \<and> stairsAt (mr_map (the (generateMap zeroDraws noIds 1 Dwarf))) (3, 3)
   \<and> mr_enemies (the (generateMap zeroDraws noIds 1 Dwarf)) = []"
proof -
  have one: "(1::int) \<le> 1" by simp
  have rooms: "fst (generateRooms zeroDraws) = [room4 1 1]"
    by (simp add: zeroDraws_eq generateRooms_zero)
  have srt: "sortRooms (fst (generateRooms zeroDraws)) = [room4 1 1]"
    unfolding rooms by (simp add: sortRooms_def)
  from generateMap_endpoints[OF validRandom_zeroDraws one, of noIds Dwarf]
  obtain g where g: "generateMap zeroDraws noIds 1 Dwarf = Some g"
      "playerStart g = (centerX (hd (sortRooms (fst (generateRooms zeroDraws)))),
                        centerY (hd (sortRooms (fst (generateRooms zeroDraws)))))"
      "stairsAt (mr_map g) (centerX (last (sortRooms (fst (generateRooms zeroDraws)))),
                            centerY (last (sortRooms (fst (generateRooms zeroDraws)))))"
    by blast
  have "playerStart g = (3, 3)"
    using g(2) unfolding srt by (simp add: room4_def centerX_eq centerY_eq)
  moreover have "stairsAt (mr_map g) (3, 3)"
    using g(3) unfolding srt by (simp add: room4_def centerX_eq centerY_eq)
  moreover have "mr_enemies g = []"
    by (rule generateMap_few_rooms_no_enemies[OF _ g(1)]) (simp add: rooms)
  ultimately show ?thesis using g(1) by (simp add: rooms)
qed

section \<open>The level-up loop\<close>

declare levelUpLoop.simps [simp del]

lemma levelUpLoop_unfold:
  "levelUpLoop p =
     (if p_xp p \<ge> p_xpToNextLevel p
      then (LevelUp (p_level p + 1) 3 1 1 # fst (levelUpLoop (levelUpStep p)),
            snd (levelUpLoop (levelUpStep p)))
      else ([], p))"
  by (subst levelUpLoop.simps)
     (simp add: levelUpStep_def Let_def getXpToNextLevel_def split_beta)

lemma levelUpLoop_iter:
  "\<exists>n. levelUpLoop p =
         (map (\<lambda>k. LevelUp (p_level p + 1 + int k) 3 1 1) [0..<n], (levelUpStep ^^ n) p)
       \<and> (\<forall>k<n. p_xp ((levelUpStep ^^ k) p) \<ge> p_xpToNextLevel ((levelUpStep ^^ k) p))
       \<and> p_xp ((levelUpStep ^^ n) p) < p_xpToNextLevel ((levelUpStep ^^ n) p)"
proof (induction p rule: levelUpLoop.induct)
  case (1 p)
  show ?case
  proof (cases "p_xp p \<ge> p_xpToNextLevel p")
    case False
    then have "levelUpLoop p = ([], p)" by (subst levelUpLoop_unfold) simp
    with False show ?thesis by (intro exI[of _ 0]) simp
  next
    case True
    have step: "p\<lparr>p_xp := p_xp p - p_xpToNextLevel p, p_level := p_level p + 1,
                  p_maxHp := p_maxHp p + 3,
                  p_hp := min (p_maxHp p + 3) (p_hp p + (p_maxHp p + 3) div 2),
                  p_attack := p_attack p + 1, p_defense := p_defense p + 1,
                  p_xpToNextLevel := getXpToNextLevel (p_level p + 1)\<rparr> = levelUpStep p"
      by (simp add: levelUpStep_def getXpToNextLevel_def)
    from 1[OF True refl refl refl refl refl refl refl refl refl refl refl]
    obtain n where n: "levelUpLoop (levelUpStep p) =
         (map (\<lambda>k. LevelUp (p_level (levelUpStep p) + 1 + int k) 3 1 1) [0..<n],
          (levelUpStep ^^ n) (levelUpStep p))"
       "\<forall>k<n. p_xp ((levelUpStep ^^ k) (levelUpStep p)) \<ge> p_xpToNextLevel ((levelUpStep ^^ k) (levelUpStep p))"
       "p_xp ((levelUpStep ^^ n) (levelUpStep p)) < p_xpToNextLevel ((levelUpStep ^^ n) (levelUpStep p))"
      by (auto simp: step)
    have lvl: "p_level (levelUpStep p) = p_level p + 1" by (simp add: levelUpStep_def)
    have a: "levelUpLoop p =
         (map (\<lambda>k. LevelUp (p_level p + 1 + int k) 3 1 1) [0..<Suc n], (levelUpStep ^^ Suc n) p)"
      using True n(1)
      by (subst levelUpLoop_unfold) (simp add: lvl map_upt_Suc funpow_swap1 add.assoc del: upt_Suc)
    have b: "\<forall>k<Suc n. p_xp ((levelUpStep ^^ k) p) \<ge> p_xpToNextLevel ((levelUpStep ^^ k) p)"
    proof (intro allI impI)
      fix k assume "k < Suc n"
      show "p_xp ((levelUpStep ^^ k) p) \<ge> p_xpToNextLevel ((levelUpStep ^^ k) p)"
      proof (cases k)
        case 0 then show ?thesis using True by simp
      next
        case (Suc j)
        with \<open>k < Suc n\<close> n(2) show ?thesis by (simp add: funpow_swap1)
      qed
    qed
    have c: "p_xp ((levelUpStep ^^ Suc n) p) < p_xpToNextLevel ((levelUpStep ^^ Suc n) p)"
      using n(3) by (simp add: funpow_swap1)
    from a b c show ?thesis by blast
  qed
qed



text \<open>
  C7. Granting the experience of a kill always returns: \<open>levelUpLoop\<close> is a total
  function, so the loop terminates for every player and every enemy. It runs some number
  \<open>n\<close> of iterations; the player it leaves is the \<open>n\<close>-fold iterate of the specification's
  step (old threshold subtracted, level + 1, maxHp + 3, attack + 1, defense + 1, heal of
  half the new maxHp clamped at maxHp, threshold = level * 50); every one of those
  iterations was entered with \<open>xp \<ge> xpToNextLevel\<close>; exactly one \<open>level_up\<close> event per
  iteration follows the \<open>xp_gained\<close> event; and on exit \<open>xp < xpToNextLevel\<close>.
\<close>

theorem grantXp_level_up_loop:
  "\<exists>n. grantXp state enemy =
         (XpGained (getEnemyXpReward enemy) (p_xp (player state) + getEnemyXpReward enemy)
            # map (\<lambda>k. LevelUp (p_level (player state) + 1 + int k) 3 1 1) [0..<n],
          state\<lparr>player := (levelUpStep ^^ n)
             ((player state)\<lparr>p_xp := p_xp (player state) + getEnemyXpReward enemy\<rparr>)\<rparr>)
       \<and> (\<forall>k<n. p_xpToNextLevel ((levelUpStep ^^ k)
                    ((player state)\<lparr>p_xp := p_xp (player state) + getEnemyXpReward enemy\<rparr>))
                \<le> p_xp ((levelUpStep ^^ k)
                    ((player state)\<lparr>p_xp := p_xp (player state) + getEnemyXpReward enemy\<rparr>)))
       \<and> p_xp (player (snd (grantXp state enemy)))
           < p_xpToNextLevel (player (snd (grantXp state enemy)))"
proof -
  let ?p = "(player state)\<lparr>p_xp := p_xp (player state) + getEnemyXpReward enemy\<rparr>"
  from levelUpLoop_iter[of ?p] obtain n where
    n: "levelUpLoop ?p =
         (map (\<lambda>k. LevelUp (p_level ?p + 1 + int k) 3 1 1) [0..<n], (levelUpStep ^^ n) ?p)"
       "\<forall>k<n. p_xp ((levelUpStep ^^ k) ?p) \<ge> p_xpToNextLevel ((levelUpStep ^^ k) ?p)"
       "p_xp ((levelUpStep ^^ n) ?p) < p_xpToNextLevel ((levelUpStep ^^ n) ?p)"
    by blast
  have g: "grantXp state enemy =
         (XpGained (getEnemyXpReward enemy) (p_xp (player state) + getEnemyXpReward enemy)
            # map (\<lambda>k. LevelUp (p_level (player state) + 1 + int k) 3 1 1) [0..<n],
          state\<lparr>player := (levelUpStep ^^ n) ?p\<rparr>)"
    using n(1) by (simp add: grantXp_def Let_def)
  show ?thesis
    using n(2,3) by (intro exI[of _ n]) (simp add: g)
qed

theorem grantXp_level_up_loop_witness:
  "fst (grantXp killState championDragon) =
     [XpGained 800 800, LevelUp 2 3 1 1, LevelUp 3 3 1 1, LevelUp 4 3 1 1, LevelUp 5 3 1 1,
      LevelUp 6 3 1 1]
   \<and> p_xp (player (snd (grantXp killState championDragon))) = 90
   \<and> p_xpToNextLevel (player (snd (grantXp killState championDragon))) = 300
   \<and> p_level (player (snd (grantXp killState championDragon))) = 6
   \<and> p_maxHp (player (snd (grantXp killState championDragon))) = 40
   \<and> p_attack (player (snd (grantXp killState championDragon))) = 10
   \<and> p_defense (player (snd (grantXp killState championDragon))) = 7"
  using grantXp_level_up_loop[of killState championDragon]
  by (simp add: grantXp_def killState_def championDragon_def testPlayer_def
      getEnemyXpReward_def levelUpLoop_unfold levelUpStep_def Let_def)

section \<open>Equipment\<close>

lemma getSlot_setSlot:
  "getSlot (setSlot pe sl e) sl' = (if sl' = sl then Some e else getSlot pe sl')"
  by (cases sl; cases sl') simp_all

text \<open>
  C10. The auto-equip decision compares the sums of all five bonus fields (an empty slot
  always equips). An equip changes attack, defense and maxHp by exactly the difference of
  the new and the replaced equipment's attackBonus, defenseBonus and hpBonus; the two
  ranged bonuses enter none of the three. The player's hp afterwards is the minimum of the
  old hp and the new maxHp, so it is never increased. Apart from these four numbers, the
  one equipment slot and the removal of the item from the ground, an equip changes nothing
  in the game state: every other field of the player and of the state is as before. When
  the item is not equipped the state is unchanged.
\<close>

theorem handleEquipmentPickup_swap:
  fixes state :: GameState and itemId :: string and equipment :: Equipment and itemIndex :: nat
  defines "cur \<equiv> getSlot (p_equipment (player state)) (eq_slot equipment)"
  defines "res \<equiv> handleEquipmentPickup state itemId equipment itemIndex"
  defines "sum5 \<equiv> \<lambda>e. attackBonus e + defenseBonus e + hpBonus e
                          + rangedDamageBonus e + rangedRangeBonus e"
  defines "equips \<equiv> (cur = None \<or> sum5 equipment > (case cur of None \<Rightarrow> 0 | Some c \<Rightarrow> sum5 c))"
  shows "(equips \<longrightarrow>
            fst res = [EquipmentEquipped itemId equipment (eq_slot equipment)]
          \<and> p_attack (player (snd res)) =
              p_attack (player state) - (case cur of None \<Rightarrow> 0 | Some c \<Rightarrow> attackBonus c)
              + attackBonus equipment
          \<and> p_defense (player (snd res)) =
              p_defense (player state) - (case cur of None \<Rightarrow> 0 | Some c \<Rightarrow> defenseBonus c)
              + defenseBonus equipment
          \<and> p_maxHp (player (snd res)) =
              p_maxHp (player state) - (case cur of None \<Rightarrow> 0 | Some c \<Rightarrow> hpBonus c)
              + hpBonus equipment
          \<and> p_hp (player (snd res)) = min (p_hp (player state)) (p_maxHp (player (snd res)))
          \<and> getSlot (p_equipment (player (snd res))) (eq_slot equipment) = Some equipment
          \<and> items (snd res) = splice1 (items state) itemIndex
          \<and> (\<forall>sl. getSlot (p_equipment (player (snd res))) sl =
                   (if sl = eq_slot equipment then Some equipment
                    else getSlot (p_equipment (player state)) sl))
          \<and> snd res =
              state\<lparr>items := splice1 (items state) itemIndex,
                    player := (player state)
                      \<lparr>p_attack := p_attack (player (snd res)),
                       p_defense := p_defense (player (snd res)),
                       p_maxHp := p_maxHp (player (snd res)),
                       p_hp := p_hp (player (snd res)),
                       p_equipment := p_equipment (player (snd res))\<rparr>\<rparr>)
       \<and> (\<not> equips \<longrightarrow> res = ([EquipmentFound equipment True], state))
       \<and> p_hp (player (snd res)) \<le> p_hp (player state)"
proof (cases cur)
  case None
  then show ?thesis
    unfolding equips_def res_def sum5_def
    using None[unfolded cur_def]
    by (simp add: handleEquipmentPickup_def Let_def getEquipmentTotalBonus_def getSlot_setSlot)
next
  case (Some c)
  then show ?thesis
    unfolding equips_def res_def sum5_def
    using Some[unfolded cur_def]
    by (simp add: handleEquipmentPickup_def Let_def getEquipmentTotalBonus_def getSlot_setSlot)
qed

theorem handleEquipmentPickup_swap_witness:
  "handleEquipmentPickup armoredState ''armor1'' rangerVest 0 =
     ([EquipmentEquipped ''armor1'' rangerVest Armor],
      armoredState\<lparr>items := [],
        player := testPlayer\<lparr>p_hp := 30, p_maxHp := 30, p_defense := 4,
                    p_equipment := noEquipment\<lparr>armor := Some rangerVest\<rparr>\<rparr>\<rparr>)
   \<and> attackBonus rangerVest + defenseBonus rangerVest + hpBonus rangerVest = 7
   \<and> attackBonus leatherArmor + defenseBonus leatherArmor + hpBonus leatherArmor = 11"
  using handleEquipmentPickup_swap[of armoredState rangerVest "''armor1''" 0]
  by (simp add: handleEquipmentPickup_def armoredState_def killState_def testPlayer_def
      noEquipment_def leatherArmor_def rangerVest_def mkEquipment_def Let_def
      getEquipmentTotalBonus_def splice1_def)

section \<open>The enemies' turn\<close>

lemma list_ex_enumerate:
  "list_ex P (enumerate 0 xs) \<longleftrightarrow> (\<exists>j<length xs. P (j, xs ! j))"
  by (auto simp: list_ex_iff in_set_enumerate_eq) 

lemma list_all_enumerate:
  "list_all P (enumerate 0 xs) \<longleftrightarrow> (\<forall>j<length xs. P (j, xs ! j))"
  by (auto simp: list_all_iff in_set_enumerate_eq)

lemma otherLiveEnemyAt_iff:
  "otherLiveEnemyAt s i x y \<longleftrightarrow>
     (\<exists>j<length (enemies s). j \<noteq> i \<and> e_x (enemies s ! j) = x \<and> e_y (enemies s ! j) = y
                              \<and> e_hp (enemies s ! j) > 0)"
  by (simp add: otherLiveEnemyAt_def list_ex_enumerate)

lemma noOverlap_iff:
  "noOverlap s \<longleftrightarrow>
     (\<forall>i<length (enemies s). e_hp (enemies s ! i) > 0 \<longrightarrow>
        (\<forall>j<length (enemies s). j \<noteq> i \<and> e_hp (enemies s ! j) > 0 \<longrightarrow>
            \<not> (e_x (enemies s ! j) = e_x (enemies s ! i) \<and> e_y (enemies s ! j) = e_y (enemies s ! i)))
        \<and> \<not> (e_x (enemies s ! i) = p_x (player s) \<and> e_y (enemies s ! i) = p_y (player s)))"
  unfolding noOverlap_def list_all_enumerate otherLiveEnemyAt_iff
  by (auto simp: not_le)





lemma aiFrame_length: "aiFrame s s' \<Longrightarrow> length (enemies s') = length (enemies s)"
  by (auto simp: aiFrame_def dest: map_eq_imp_length_eq)

lemma aiFrame_hp: "aiFrame s s' \<Longrightarrow> map e_hp (enemies s') = map e_hp (enemies s)"
proof -
  assume "aiFrame s s'"
  then have "map enemyCore (enemies s') = map enemyCore (enemies s)" by (simp add: aiFrame_def)
  then have "map (e_hp \<circ> enemyCore) (enemies s') = map (e_hp \<circ> enemyCore) (enemies s)"
    by (metis map_map)
  moreover have "e_hp \<circ> enemyCore = e_hp" by (rule ext) (simp add: enemyCore_def)
  ultimately show ?thesis by simp
qed



lemma noOverlap_cong:
  assumes "map (\<lambda>e. (e_x e, e_y e, e_hp e)) (enemies s') = map (\<lambda>e. (e_x e, e_y e, e_hp e)) (enemies s)"
      and "p_x (player s') = p_x (player s)" "p_y (player s') = p_y (player s)"
  shows "noOverlap s' = noOverlap s"
proof -
  have len: "length (enemies s') = length (enemies s)"
    using assms(1) by (rule map_eq_imp_length_eq)
  have nth: "e_x (enemies s' ! i) = e_x (enemies s ! i) \<and> e_y (enemies s' ! i) = e_y (enemies s ! i)
             \<and> e_hp (enemies s' ! i) = e_hp (enemies s ! i)" if "i < length (enemies s)" for i
  proof -
    have "map (\<lambda>e. (e_x e, e_y e, e_hp e)) (enemies s') ! i
          = map (\<lambda>e. (e_x e, e_y e, e_hp e)) (enemies s) ! i"
      by (simp only: assms(1))
    then show ?thesis using that len by simp
  qed
  show ?thesis
    unfolding noOverlap_iff len assms(2,3) using nth by auto
qed













subsection \<open>The enemies' turn returns on a rectangular map\<close>

declare bfsLoop.simps [simp del]
declare losLoop.simps [simp del]

lemma rectMap_width: "rectMap m \<Longrightarrow> mapWidth m = Some (int (length (hd m)))"
  by (cases m) (auto simp: rectMap_def mapWidth_def)














section \<open>The turn engine\<close>

subsection \<open>Fog update\<close>






subsection \<open>Experience\<close>







subsection \<open>The end of a turn\<close>

lemma noOverlap_fog [simp]: "noOverlap (s\<lparr>fog := f\<rparr>) = noOverlap s"
  by (rule noOverlap_cong) simp_all

lemma noOverlap_updatedAt [simp]: "noOverlap (s\<lparr>updatedAt := t\<rparr>) = noOverlap s"
  by (rule noOverlap_cong) simp_all

lemma noOverlap_score [simp]: "noOverlap (s\<lparr>score := t\<rparr>) = noOverlap s"
  by (rule noOverlap_cong) simp_all

lemma noOverlap_items [simp]: "noOverlap (s\<lparr>items := t\<rparr>) = noOverlap s"
  by (rule noOverlap_cong) simp_all







subsection \<open>The test map and the move target\<close>

lemma length_createTestMap [simp]: "length (createTestMap w h) = h"
  by (simp add: createTestMap_def)

lemma createTestMap_row:
  "y < h \<Longrightarrow> createTestMap w h ! y
     = map (\<lambda>x. \<lparr>t_type = (if x = 0 \<or> x = w - 1 \<or> y = 0 \<or> y = h - 1 then Wall else Floor),
                 t_x = int x, t_y = int y\<rparr>) [0..<w]"
  by (simp add: createTestMap_def)

lemma hd_createTestMap: "0 < h \<Longrightarrow> length (hd (createTestMap w h)) = w"
  by (simp add: createTestMap_def hd_map upt_conv_Cons)

lemma rectMap_createTestMap: "0 < h \<Longrightarrow> rectMap (createTestMap w h)"
  unfolding rectMap_def
  by (auto simp: hd_createTestMap list_all_iff) (auto simp: createTestMap_def)

lemma mapWidth_createTestMap: "0 < h \<Longrightarrow> mapWidth (createTestMap w h) = Some (int w)"
  using rectMap_width[OF rectMap_createTestMap, of h w] by (simp add: hd_createTestMap)

lemma tileAt_createTestMap:
  "tileAt (createTestMap w h) x y =
     (if 0 \<le> x \<and> x < int w \<and> 0 \<le> y \<and> y < int h
      then Some \<lparr>t_type = (if x = 0 \<or> x = int w - 1 \<or> y = 0 \<or> y = int h - 1 then Wall else Floor),
                 t_x = x, t_y = y\<rparr>
      else None)"
proof (cases "0 \<le> y \<and> y < int h")
  case False
  then show ?thesis by (auto simp: tileAt_def)
next
  case True
  then have y: "nat y < h" by auto
  show ?thesis
  proof (cases "0 \<le> x \<and> x < int w")
    case False
    then show ?thesis using True by (auto simp: tileAt_def Let_def createTestMap_row[OF y])
  next
    case x: True
    then have "nat x < w" by auto
    then show ?thesis using True x
      by (auto simp: tileAt_def Let_def createTestMap_row[OF y] nat_eq_iff)
  qed
qed

lemma mapWidth_Some: "m \<noteq> [] \<Longrightarrow> mapWidth m = Some (int (length (hd m)))"
  by (cases m) (simp_all add: mapWidth_def)

lemma processMove_target:
  assumes "status state = Active" and "moveTarget state direction = (newX, newY)"
  shows "processMove rnd uuid now state direction =
     (if newY < 0 \<or> newY \<ge> int (length (gs_map state)) \<or> newX < 0 then Some ([], state)
           else
             (case mapWidth (gs_map state) of
                None \<Rightarrow> None
              | Some w \<Rightarrow>
                  if newX \<ge> w then Some ([], state)
                  else
                    (case tileAt (gs_map state) newX newY of
                       None \<Rightarrow> None
                     | Some tile \<Rightarrow>
                         if t_type tile = Wall then Some ([], state)
                         else
                           (case findIndex (\<lambda>e. e_x e = newX \<and> e_y e = newY \<and> e_hp e > 0)
                                   (enemies state) of
                              Some enemyAtTarget \<Rightarrow>
                                let s1 = setFacing state direction;
                                    (attackEvents, s2) = attackEnemy s1 enemyAtTarget
                                in finishMove now attackEvents s2
                            | None \<Rightarrow>
                                let s1 = state\<lparr>player := (player state)\<lparr>p_x := newX, p_y := newY\<rparr>\<rparr>;
                                    s2 = setFacing s1 direction;
                                    (itemEvents, s3) = checkForItems s2 newX newY;
                                    events = PlayerMoved # itemEvents
                                in if t_type tile = Stairs then
                                     (case descendStairs rnd uuid now s3 of
                                        None \<Rightarrow> None
                                      | Some (descendEvents, s4) \<Rightarrow> Some (events @ descendEvents, s4))
                                   else finishMove now events s3))))"
proof -
  have tx: "p_x (player state) + (if direction = DirLeft then - 1 else if direction = DirRight then 1 else 0)
            = fst (moveTarget state direction)"
    and ty: "p_y (player state) + (if direction = Up then - 1 else if direction = Down then 1 else 0)
            = snd (moveTarget state direction)"
    by (simp_all add: moveTarget_def)
  have a: "(status state \<noteq> Active) = False" using assms(1) by simp
  show ?thesis
    unfolding processMove_def Let_def tx ty assms(2) fst_conv snd_conv a if_False ..
qed

subsection \<open>Melee\<close>





lemma findIndex_None: "findIndex P xs = None \<longleftrightarrow> (\<forall>x\<in>set xs. \<not> P x)"
  by (induction xs) (auto split: option.splits)

lemma wellFormed_fields:
  "gs_map s' = gs_map s \<Longrightarrow> fog s' = fog s \<Longrightarrow> rectMap (gs_map s) \<Longrightarrow>
   length (gs_map s) \<le> length (fog s) \<Longrightarrow>
   rectMap (gs_map s') \<and> length (gs_map s') \<le> length (fog s')"
  by simp



subsection \<open>Blocked moves\<close>

text \<open>
  C8. For every active state and every direction whose target cell lies outside the map or
  holds a wall tile, \<open>processMove\<close> returns no event and the state it was given, every
  field unchanged: the player does not move, the fog is not updated, and no enemy moves or
  attacks.
\<close>

theorem processMove_blocked:
  assumes "status state = Active"
    and "outOfBounds (gs_map state) (moveTarget state direction)
         \<or> isWallAt (gs_map state) (fst (moveTarget state direction)) (snd (moveTarget state direction))"
  shows "processMove rnd uuid now state direction = Some ([], state)"
proof -
  obtain x y where t: "moveTarget state direction = (x, y)" by (cases "moveTarget state direction")
  note pm = processMove_target[OF assms(1) t]
  show ?thesis
  proof (cases "gs_map state = []")
    case True
    then have "y < 0 \<or> y \<ge> int (length (gs_map state)) \<or> x < 0" by auto
    then show ?thesis unfolding pm by (simp only: if_True)
  next
    case False
    note w = mapWidth_Some[OF False]
    from assms(2) show ?thesis
    proof
      assume "outOfBounds (gs_map state) (moveTarget state direction)"
      then have "y < 0 \<or> y \<ge> int (length (gs_map state)) \<or> x < 0 \<or> int (length (hd (gs_map state))) \<le> x"
        by (auto simp: outOfBounds_def t)
      then show ?thesis unfolding pm w by auto
    next
      assume "isWallAt (gs_map state) (fst (moveTarget state direction)) (snd (moveTarget state direction))"
      then obtain tile where "tileAt (gs_map state) x y = Some tile" "t_type tile = Wall"
        by (auto simp: isWallAt_def t split: option.splits)
      then show ?thesis unfolding pm w by simp
    qed
  qed
qed

theorem processMove_blocked_witness:
  "status (testState\<lparr>player := testPlayer\<lparr>p_x := 1\<rparr>\<rparr>) = Active
   \<and> moveTarget (testState\<lparr>player := testPlayer\<lparr>p_x := 1\<rparr>\<rparr>) DirLeft = (0, 5)
   \<and> isWallAt (gs_map (testState\<lparr>player := testPlayer\<lparr>p_x := 1\<rparr>\<rparr>)) 0 5
   \<and> outOfBounds (gs_map testState) (40, 5)
   \<and> processMove (\<lambda>k. 0) noIds 7 (testState\<lparr>player := testPlayer\<lparr>p_x := 1\<rparr>\<rparr>) DirLeft
       = Some ([], testState\<lparr>player := testPlayer\<lparr>p_x := 1\<rparr>\<rparr>)"
  using processMove_blocked[of "testState\<lparr>player := testPlayer\<lparr>p_x := 1\<rparr>\<rparr>" DirLeft "\<lambda>k. 0" noIds 7]
  by (simp add: testState_def testPlayer_def moveTarget_def isWallAt_def tileAt_createTestMap
        outOfBounds_def hd_createTestMap)

subsection \<open>Melee by moving into an enemy\<close>




end
